theory Spec2Isabelle
  imports Main
begin

section \<open>Exceptions and results\<close>

text \<open>
  The program is \<^verbatim>\<open>src/app.py\<close>, a Flask application. Every function of it that can
  raise is modelled as a function from the world before the call to a pair of a result
  and the world after the call: an exception leaves the effects made so far in place.
  An exception is its class and its message (\<^verbatim>\<open>str(e)\<close>). The classes named here are
  the ones the source catches or raises by name; any other class raised by a library or a
  remote service is \<open>LibraryError\<close> with the class name. All of them are subclasses of
  Python's \<^verbatim>\<open>Exception\<close>, so \<^verbatim>\<open>except Exception\<close> catches every value of \<open>exn\<close>.
\<close>

datatype exn_class =
    UnicodeDecodeError
  | JSONDecodeError
  | TypeError
  | AttributeError
  | FileNotFoundError
  | IsADirectoryError
  | BadRequestKeyError
  | PlainException
  | LibraryError string

datatype exn = Exn exn_class string

fun exn_str :: "exn \<Rightarrow> string" where
  "exn_str (Exn c m) = m"

fun exn_cls :: "exn \<Rightarrow> exn_class" where
  "exn_cls (Exn c m) = c"

section \<open>Token data\<close>

text \<open>
  What \<^verbatim>\<open>json.load\<close> returns for the token file: any JSON value. Numbers are
  integers here (a float behaves like an integer in the one operation applied to token
  data, the membership test). A dict is an association list.
\<close>

datatype json =
    JNull
  | JBool bool
  | JNum int
  | JStr string
  | JArr "json list"
  | JObj "(string \<times> json) list"

fun is_substring :: "string \<Rightarrow> string \<Rightarrow> bool" where
  "is_substring k [] = (k = [])"
| "is_substring k (c # s) = (take (length k) (c # s) = k \<or> is_substring k s)"

text \<open>
  Python's \<^verbatim>\<open>k in x\<close> for a string \<open>k\<close>: key membership on a dict, element membership
  on a list, substring on a string, and \<^verbatim>\<open>TypeError\<close> on \<^verbatim>\<open>None\<close>, a bool or a number.
\<close>

fun py_in :: "string \<Rightarrow> json \<Rightarrow> exn + bool" where
  "py_in k (JObj d) = Inr (k \<in> set (map fst d))"
| "py_in k (JArr xs) = Inr (JStr k \<in> set xs)"
| "py_in k (JStr s) = Inr (is_substring k s)"
| "py_in k JNull = Inl (Exn TypeError ''argument of type 'NoneType' is not iterable'')"
| "py_in k (JBool b) = Inl (Exn TypeError ''argument of type 'bool' is not iterable'')"
| "py_in k (JNum n) = Inl (Exn TypeError ''argument of type 'int' is not iterable'')"

section \<open>Credentials\<close>

text \<open>
  A \<^verbatim>\<open>google.oauth2.credentials.Credentials\<close> object as \<^verbatim>\<open>authenticate\<close> reads it:
  the access token, the refresh token and whether the library reports the credential as
  expired (its comparison of the expiry with the clock). The library's property
  \<^verbatim>\<open>valid\<close> is \<^verbatim>\<open>self.token is not None and not self.expired\<close>.
\<close>

record credential =
  token :: "string option"
  refresh_token :: "string option"
  expired :: bool

definition cred_valid :: "credential \<Rightarrow> bool" where
  "cred_valid c = (token c \<noteq> None \<and> \<not> expired c)"

text \<open>Truthiness of an optional string: \<^verbatim>\<open>None\<close> and the empty string are false.\<close>

fun truthy :: "string option \<Rightarrow> bool" where
  "truthy None = False"
| "truthy (Some s) = (s \<noteq> [])"

section \<open>Remote calls\<close>

text \<open>
  A call on a Google API client: the method, the keyword arguments that are identifiers
  as the source writes them, and the body. The trace of the world records, in order,
  every call the program makes on a client, as sent (\<^verbatim>\<open>ECall\<close>, the call reached
  \<^verbatim>\<open>.execute()\<close>) or as rejected by the client library before anything is sent
  (\<^verbatim>\<open>ERejected\<close>), together with the local events on the token file and the two steps
  that contact the authorisation server.
\<close>

datatype attachment = DriveFile "string option" string

datatype body =
    NoBody
  | StateBody string
  | AddAttachments "attachment list"
  | FileUpload string string

datatype call = Call string "(string \<times> string) list" body

fun call_method :: "call \<Rightarrow> string" where
  "call_method (Call m kwargs b) = m"

fun call_kwargs :: "call \<Rightarrow> (string \<times> string) list" where
  "call_kwargs (Call m kwargs b) = kwargs"

fun call_body :: "call \<Rightarrow> body" where
  "call_body (Call m kwargs b) = b"

datatype event =
    EUnlink
  | EWrite string
  | ERefresh
  | EConsent
  | ECall call
  | ERejected call

section \<open>Data returned by the Classroom service\<close>

text \<open>
  The payloads follow the schema of the Classroom API: a submission has an identifier and
  a state, a coursework item has an identifier, a title and an optional due date, whose
  components \<^verbatim>\<open>year\<close>, \<^verbatim>\<open>month\<close>, \<^verbatim>\<open>day\<close> are optional scalars. A missing list
  (\<^verbatim>\<open>studentSubmissions\<close>, \<^verbatim>\<open>courseWork\<close>) and an empty one are both the empty list:
  the source treats them alike (\<^verbatim>\<open>.get\<close> followed by a truth test or a default).
  The fields the source reads by index (\<^verbatim>\<open>work['id']\<close>, \<^verbatim>\<open>work['title']\<close>,
  \<^verbatim>\<open>submission['id']\<close>, \<^verbatim>\<open>submission['state']\<close>) are always present in these
  payloads, so those reads do not raise. A dict is an association list, read with
  \<open>map_of\<close>; it is true in Python when it is not empty.
\<close>

datatype pyval = PyNone | PyBool bool | PyInt int | PyStr string

record submission =
  sub_id :: string
  sub_state :: string

record work =
  work_id :: string
  work_title :: string
  work_dueDate :: "(string \<times> pyval) list option"

section \<open>The environment and the world\<close>

text \<open>
  The environment holds what the program does not own: the libraries that parse and
  print credentials, the authorisation server (refresh and the interactive consent flow)
  and the two remote services. A remote method sees the trace so far, so its answer may
  depend on every earlier call. Each may raise. The last two fields are the verdict of
  the operating system on creating the scratch directory and on opening a path of the
  scratch area for writing (a missing directory, a permission).
\<close>

record env =
  json_load :: "string \<Rightarrow> exn + json"
  from_authorized_user_info :: "json \<Rightarrow> exn + credential"
  to_json :: "credential \<Rightarrow> string"
  refresh :: "credential \<Rightarrow> exn + credential"
  parse_client_secrets :: "string \<Rightarrow> exn option"
  run_local_server :: "exn + credential"
  build_services :: "credential \<Rightarrow> exn option"
  coursework_list :: "event list \<Rightarrow> call \<Rightarrow> exn + work list"
  submissions_list :: "event list \<Rightarrow> call \<Rightarrow> exn + submission list"
  submissions_create :: "event list \<Rightarrow> call \<Rightarrow> exn + submission"
  submissions_patch :: "event list \<Rightarrow> call \<Rightarrow> exn + unit"
  submissions_turnIn :: "event list \<Rightarrow> call \<Rightarrow> exn + unit"
  files_create :: "event list \<Rightarrow> call \<Rightarrow> exn + string option"
  courses_list :: "event list \<Rightarrow> call \<Rightarrow> exn + (string \<times> string) list"
  os_makedirs :: "string \<Rightarrow> exn option"
  open_for_writing :: "string \<Rightarrow> exn option"

text \<open>
  The world is the local file system as far as the program touches it: the token file
  \<^verbatim>\<open>token.json\<close> and the client configuration \<^verbatim>\<open>credentials.json\<close> (their text, or
  \<open>None\<close> when the file does not exist), the files under the scratch directory by path,
  and the trace. Reading and removing a file act on this state and fail only as the
  state says (a file that does not exist); logging is not modelled.
\<close>

record world =
  token_file :: "string option"
  credentials_file :: "string option"
  files :: "string \<Rightarrow> string option"
  trace :: "event list"

definition emit :: "event \<Rightarrow> world \<Rightarrow> world" where
  "emit ev w = w\<lparr>trace := trace w @ [ev]\<rparr>"

section \<open>The API client\<close>

text \<open>
  The clients are built by \<^verbatim>\<open>googleapiclient\<close> from the description of each API
  (Classroom v1, Drive v3). The library raises \<^verbatim>\<open>AttributeError\<close> for a method the
  description does not have, and \<^verbatim>\<open>TypeError\<close> when a call lacks a parameter the
  description requires, both before anything is sent. The table gives, for the methods
  the program names, the required parameters; Classroom v1 has no
  \<^verbatim>\<open>studentSubmissions.create\<close>. Every keyword the program passes is one the
  description knows, so the check for unexpected keywords is left out.
\<close>

definition api_required :: "string \<Rightarrow> string list option" where
  "api_required m =
     (if m = ''courses.list'' then Some []
      else if m = ''courses.courseWork.list'' then Some [''courseId'']
      else if m = ''courses.courseWork.studentSubmissions.list''
        then Some [''courseId'', ''courseWorkId'']
      else if m = ''courses.courseWork.studentSubmissions.patch''
        then Some [''courseId'', ''courseWorkId'', ''id'']
      else if m = ''courses.courseWork.studentSubmissions.turnIn''
        then Some [''courseId'', ''courseWorkId'', ''id'']
      else if m = ''files.create'' then Some []
      else None)"

definition method_attribute :: "string \<Rightarrow> string" where
  "method_attribute m = rev (takeWhile (\<lambda>c. c \<noteq> CHR ''.'') (rev m))"

definition build_request :: "call \<Rightarrow> exn option" where
  "build_request c =
     (case api_required (call_method c) of
        None \<Rightarrow>
          Some (Exn AttributeError
                 (CHR 0x27 # ''Resource'' @ CHR 0x27 # '' object has no attribute ''
                  @ CHR 0x27 # method_attribute (call_method c) @ [CHR 0x27]))
      | Some required \<Rightarrow>
          (case filter (\<lambda>p. p \<notin> set (map fst (call_kwargs c))) required of
             [] \<Rightarrow> None
           | p # ps \<Rightarrow>
               Some (Exn TypeError (''Missing required parameter '' @ CHR 0x22 # p @ [CHR 0x22]))))"

text \<open>
  A call followed by \<^verbatim>\<open>.execute()\<close>: the client builds the request or rejects the
  call; a request that was built is sent and the remote method answers.
\<close>

definition api_call ::
  "call \<Rightarrow> (event list \<Rightarrow> call \<Rightarrow> exn + 'a) \<Rightarrow> world \<Rightarrow> (exn + 'a) \<times> world" where
  "api_call c remote w =
     (case build_request c of
        Some e \<Rightarrow> (Inl e, emit (ERejected c) w)
      | None \<Rightarrow>
          (case remote (trace w) c of
             Inl e \<Rightarrow> (Inl e, emit (ECall c) w)
           | Inr r \<Rightarrow> (Inr r, emit (ECall c) w)))"

section \<open>authenticate\<close>

text \<open>\<^verbatim>\<open>TOKEN_PATH.unlink()\<close>: raises when the file does not exist.\<close>

definition unlink_token :: "world \<Rightarrow> exn + world" where
  "unlink_token w =
     (case token_file w of
        None \<Rightarrow> Inl (Exn FileNotFoundError ''token.json'')
      | Some txt \<Rightarrow> Inr (emit EUnlink (w\<lparr>token_file := None\<rparr>)))"

text \<open>
  \<^verbatim>\<open>try: TOKEN_PATH.unlink() except Exception as e: logger.error(...)\<close>
  (lines 54-57 and 63-66).
\<close>

definition try_unlink :: "world \<Rightarrow> world" where
  "try_unlink w = (case unlink_token w of Inl e \<Rightarrow> w | Inr w' \<Rightarrow> w')"

text \<open>The body of the \<^verbatim>\<open>try\<close> of lines 48-60, on the text of the token file.\<close>

definition load_body :: "env \<Rightarrow> string \<Rightarrow> world \<Rightarrow> (exn + credential option) \<times> world" where
  "load_body env txt w =
     (case json_load env txt of
        Inl e \<Rightarrow> (Inl e, w)
      | Inr token_data \<Rightarrow>
          (case py_in ''refresh_token'' token_data of
             Inl e \<Rightarrow> (Inl e, w)
           | Inr has_refresh \<Rightarrow>
               if \<not> has_refresh then (Inr None, try_unlink w)
               else (case from_authorized_user_info env token_data of
                       Inl e \<Rightarrow> (Inl e, w)
                     | Inr c \<Rightarrow> (Inr (Some c), w))))"

text \<open>
  Lines 44-69: the load of the stored credential, with the handler
  \<^verbatim>\<open>except (UnicodeDecodeError, json.JSONDecodeError)\<close> around the body.
\<close>

definition load_token :: "env \<Rightarrow> world \<Rightarrow> (exn + credential option) \<times> world" where
  "load_token env w =
     (case token_file w of
        None \<Rightarrow> (Inr None, w)
      | Some txt \<Rightarrow>
          (case load_body env txt w of
             (Inl e, w1) \<Rightarrow>
               if exn_cls e = UnicodeDecodeError \<or> exn_cls e = JSONDecodeError
               then (Inr None, try_unlink w1)
               else (Inl e, w1)
           | (Inr creds, w1) \<Rightarrow> (Inr creds, w1)))"

text \<open>\<^verbatim>\<open>creds.refresh(Request())\<close>, line 75: the credential is updated in place.\<close>

definition refresh_step :: "env \<Rightarrow> credential \<Rightarrow> world \<Rightarrow> (exn + credential) \<times> world" where
  "refresh_step env c w =
     (case refresh env c of
        Inl e \<Rightarrow> (Inl e, emit ERefresh w)
      | Inr c' \<Rightarrow> (Inr c', emit ERefresh w))"

text \<open>
  \<^verbatim>\<open>InstalledAppFlow.from_client_secrets_file(str(CREDENTIALS_PATH), SCOPES)\<close>: reads
  the client configuration.
\<close>

definition flow_from_client_secrets :: "env \<Rightarrow> world \<Rightarrow> exn + unit" where
  "flow_from_client_secrets env w =
     (case credentials_file w of
        None \<Rightarrow> Inl (Exn FileNotFoundError ''credentials.json'')
      | Some txt \<Rightarrow>
          (case parse_client_secrets env txt of
             Some e \<Rightarrow> Inl e
           | None \<Rightarrow> Inr ()))"

text \<open>
  Lines 79-100: the interactive consent flow. Building the authorisation URL has no
  effect on the world; \<^verbatim>\<open>flow.run_local_server\<close> is the interactive step.
\<close>

definition consent_step :: "env \<Rightarrow> world \<Rightarrow> (exn + credential) \<times> world" where
  "consent_step env w =
     (case flow_from_client_secrets env w of
        Inl e \<Rightarrow> (Inl e, w)
      | Inr u \<Rightarrow>
          (case run_local_server env of
             Inl e \<Rightarrow> (Inl e, emit EConsent w)
           | Inr c \<Rightarrow> (Inr c, emit EConsent w)))"

text \<open>\<^verbatim>\<open>with open(TOKEN_PATH, 'w') as token: token.write(creds.to_json())\<close>.\<close>

definition save_token :: "env \<Rightarrow> credential \<Rightarrow> world \<Rightarrow> world" where
  "save_token env c w = emit (EWrite (to_json env c)) (w\<lparr>token_file := Some (to_json env c)\<rparr>)"

text \<open>Lines 102-106: \<^verbatim>\<open>if creds and creds.valid:\<close> save.\<close>

definition save_if_valid :: "env \<Rightarrow> (exn + credential) \<times> world \<Rightarrow> (exn + credential) \<times> world" where
  "save_if_valid env rw =
     (case rw of
        (Inl e, w) \<Rightarrow> (Inl e, w)
      | (Inr c, w) \<Rightarrow> (Inr c, if cred_valid c then save_token env c w else w))"

definition authenticate :: "env \<Rightarrow> world \<Rightarrow> (exn + credential) \<times> world" where
  "authenticate env w =
     (case load_token env w of
        (Inl e, w1) \<Rightarrow> (Inl e, w1)
      | (Inr None, w1) \<Rightarrow> save_if_valid env (consent_step env w1)
      | (Inr (Some c), w1) \<Rightarrow>
          if \<not> cred_valid c then
            (if expired c \<and> truthy (refresh_token c)
             then save_if_valid env (refresh_step env c w1)
             else save_if_valid env (consent_step env w1))
          else (Inr c, w1))"

section \<open>Requests and responses\<close>

text \<open>
  A request carries the form fields and, for an upload, the file \<^verbatim>\<open>request.files['file']\<close>
  as its client-side name and its contents. A response is what the view function returns:
  a JSON message (status 200), a JSON error with its status, a redirect, the list of
  assignments or the list of courses (identifier and name). An exception that leaves the
  view function is the result \<open>Inl\<close>.
\<close>

record request =
  form :: "(string \<times> string) list"
  upload :: "(string \<times> string) option"

record row =
  row_id :: string
  row_title :: string
  row_due :: string
  row_status :: string

datatype response =
    Message string
  | ErrorResponse nat string
  | Redirect string
  | AssignmentList "row list"
  | CourseList "(string \<times> string) list"

definition form_get :: "request \<Rightarrow> string \<Rightarrow> exn + string" where
  "form_get req k =
     (case map_of (form req) k of
        None \<Rightarrow> Inl (Exn BadRequestKeyError k)
      | Some v \<Rightarrow> Inr v)"

definition files_get :: "request \<Rightarrow> exn + (string \<times> string)" where
  "files_get req =
     (case upload req of
        None \<Rightarrow> Inl (Exn BadRequestKeyError ''file'')
      | Some f \<Rightarrow> Inr f)"

text \<open>\<^verbatim>\<open>os.path.join\<close> and \<^verbatim>\<open>os.path.basename\<close> on POSIX paths.\<close>

definition os_path_join :: "string \<Rightarrow> string \<Rightarrow> string" where
  "os_path_join a b =
     (if take 1 b = ''/'' then b
      else if a = [] \<or> last a = CHR ''/'' then a @ b
      else a @ ''/'' @ b)"

definition os_path_basename :: "string \<Rightarrow> string" where
  "os_path_basename p = rev (takeWhile (\<lambda>c. c \<noteq> CHR ''/'') (rev p))"

text \<open>\<^verbatim>\<open>os.remove(path)\<close>: raises when the file does not exist.\<close>

definition os_remove :: "string \<Rightarrow> world \<Rightarrow> exn + world" where
  "os_remove p w =
     (case files w p of
        None \<Rightarrow> Inl (Exn FileNotFoundError p)
      | Some content \<Rightarrow> Inr (w\<lparr>files := (files w)(p := None)\<rparr>))"

text \<open>
  \<^verbatim>\<open>file.save(dst)\<close> opens \<open>dst\<close> for writing and copies the upload. A path that ends
  in a slash names a directory and cannot be opened (for an empty client file name the
  path is \<^verbatim>\<open>uploads/\<close>); otherwise the operating system decides.
\<close>

definition file_save :: "env \<Rightarrow> string \<Rightarrow> string \<Rightarrow> world \<Rightarrow> exn + world" where
  "file_save env dst content w =
     (if dst \<noteq> [] \<and> last dst = CHR ''/''
      then Inl (Exn IsADirectoryError (''[Errno 21] Is a directory: '' @ CHR 0x27 # dst @ [CHR 0x27]))
      else (case open_for_writing env dst of
              Some e \<Rightarrow> Inl e
            | None \<Rightarrow> Inr (w\<lparr>files := (files w)(dst \<mapsto> content)\<rparr>)))"

text \<open>\<^verbatim>\<open>get_services(creds)\<close>: builds the two clients; the discovery may raise.\<close>

definition get_services :: "env \<Rightarrow> credential \<Rightarrow> exn + unit" where
  "get_services env creds =
     (case build_services env creds of
        Some e \<Rightarrow> Inl e
      | None \<Rightarrow> Inr ())"

section \<open>GET /auth\<close>

text \<open>The body of the \<^verbatim>\<open>try\<close> of lines 134-152.\<close>

definition auth_body :: "env \<Rightarrow> world \<Rightarrow> (exn + response) \<times> world" where
  "auth_body env w =
     (case flow_from_client_secrets env w of
        Inl e \<Rightarrow> (Inl e, w)
      | Inr u \<Rightarrow>
          (case run_local_server env of
             Inl e \<Rightarrow> (Inl e, emit EConsent w)
           | Inr creds \<Rightarrow> (Inr (Redirect ''/courses''), save_token env creds (emit EConsent w))))"

definition auth :: "env \<Rightarrow> world \<Rightarrow> (exn + response) \<times> world" where
  "auth env w =
     (if credentials_file w = None
      then (Inr (ErrorResponse 500 ''credentials.json not found''), w)
      else
        (case (if token_file w \<noteq> None then unlink_token w else Inr w) of
           Inl e \<Rightarrow> (Inl e, w)
         | Inr w1 \<Rightarrow>
             (case auth_body env w1 of
                (Inl e, w2) \<Rightarrow>
                  (Inr (ErrorResponse 500 (''Authentication failed: '' @ exn_str e)), w2)
              | (Inr r, w2) \<Rightarrow> (Inr r, w2))))"

section \<open>GET /courses\<close>

definition courses_call :: call where
  "courses_call = Call ''courses.list'' [(''studentId'', ''me'')] NoBody"

definition courses :: "env \<Rightarrow> world \<Rightarrow> (exn + response) \<times> world" where
  "courses env w =
     (case authenticate env w of
        (Inl e, w1) \<Rightarrow> (Inl e, w1)
      | (Inr creds, w1) \<Rightarrow>
          (case get_services env creds of
             Inl e \<Rightarrow> (Inl e, w1)
           | Inr u \<Rightarrow>
               (case api_call courses_call (courses_list env) w1 of
                  (Inl e, w2) \<Rightarrow> (Inl e, w2)
                | (Inr cs, w2) \<Rightarrow> (Inr (CourseList cs), w2))))"

section \<open>GET /assignments/<course_id>\<close>

text \<open>Python's \<^verbatim>\<open>str\<close> on an integer and on the scalars of a due date.\<close>

fun str_nat :: "nat \<Rightarrow> string" where
  "str_nat n =
     (if n < 10 then [''0123456789'' ! n]
      else str_nat (n div 10) @ [''0123456789'' ! (n mod 10)])"

declare str_nat.simps [simp del]

definition str_int :: "int \<Rightarrow> string" where
  "str_int i = (if i < 0 then CHR ''-'' # str_nat (nat (- i)) else str_nat (nat i))"

fun py_str :: "pyval \<Rightarrow> string" where
  "py_str PyNone = ''None''"
| "py_str (PyBool b) = (if b then ''True'' else ''False'')"
| "py_str (PyInt i) = str_int i"
| "py_str (PyStr s) = s"

text \<open>\<^verbatim>\<open>due_date.get(k, 'N/A')\<close> inside the f-string of line 181.\<close>

definition due_component :: "(string \<times> pyval) list \<Rightarrow> string \<Rightarrow> string" where
  "due_component due_date k =
     py_str (case map_of due_date k of None \<Rightarrow> PyStr ''N/A'' | Some v \<Rightarrow> v)"

text \<open>
  Lines 180-181: \<^verbatim>\<open>due_date = work.get('dueDate', {})\<close>, then the f-string when
  \<open>due_date\<close> is true, that is, a dict that is not empty.
\<close>

definition format_due :: "work \<Rightarrow> string" where
  "format_due wk =
     (let due_date = (case work_dueDate wk of None \<Rightarrow> [] | Some d \<Rightarrow> d)
      in if due_date \<noteq> []
         then due_component due_date ''year'' @ ''-'' @ due_component due_date ''month''
              @ ''-'' @ due_component due_date ''day''
         else ''No due date'')"

definition list_call :: "string \<Rightarrow> string \<Rightarrow> call" where
  "list_call course_id coursework_id =
     Call ''courses.courseWork.studentSubmissions.list''
       [(''courseId'', course_id), (''courseWorkId'', coursework_id), (''userId'', ''me'')]
       NoBody"

text \<open>Line 179: the state of the first submission, or \<^verbatim>\<open>'NOT_SUBMITTED'\<close>.\<close>

definition status_of :: "submission list \<Rightarrow> string" where
  "status_of subs = (case subs of [] \<Rightarrow> ''NOT_SUBMITTED'' | s # rest \<Rightarrow> sub_state s)"

text \<open>One round of the loop of lines 175-182.\<close>

definition assignment_row :: "env \<Rightarrow> string \<Rightarrow> work \<Rightarrow> world \<Rightarrow> (exn + row) \<times> world" where
  "assignment_row env course_id wk w =
     (case api_call (list_call course_id (work_id wk)) (submissions_list env) w of
        (Inl e, w1) \<Rightarrow> (Inl e, w1)
      | (Inr subs, w1) \<Rightarrow>
          (Inr \<lparr>row_id = work_id wk, row_title = work_title wk,
                row_due = format_due wk, row_status = status_of subs\<rparr>, w1))"

fun assignment_rows :: "env \<Rightarrow> string \<Rightarrow> work list \<Rightarrow> world \<Rightarrow> (exn + row list) \<times> world" where
  "assignment_rows env course_id [] w = (Inr [], w)"
| "assignment_rows env course_id (wk # wks) w =
     (case assignment_row env course_id wk w of
        (Inl e, w1) \<Rightarrow> (Inl e, w1)
      | (Inr r, w1) \<Rightarrow>
          (case assignment_rows env course_id wks w1 of
             (Inl e, w2) \<Rightarrow> (Inl e, w2)
           | (Inr rs, w2) \<Rightarrow> (Inr (r # rs), w2)))"

definition coursework_call :: "string \<Rightarrow> call" where
  "coursework_call course_id = Call ''courses.courseWork.list'' [(''courseId'', course_id)] NoBody"

definition assignments :: "env \<Rightarrow> string \<Rightarrow> world \<Rightarrow> (exn + response) \<times> world" where
  "assignments env course_id w =
     (case authenticate env w of
        (Inl e, w1) \<Rightarrow> (Inl e, w1)
      | (Inr creds, w1) \<Rightarrow>
          (case get_services env creds of
             Inl e \<Rightarrow> (Inl e, w1)
           | Inr u \<Rightarrow>
               (case api_call (coursework_call course_id) (coursework_list env) w1 of
                  (Inl e, w2) \<Rightarrow> (Inl e, w2)
                | (Inr wks, w2) \<Rightarrow>
                    (case assignment_rows env course_id wks w2 of
                       (Inl e, w3) \<Rightarrow> (Inl e, w3)
                     | (Inr rs, w3) \<Rightarrow> (Inr (AssignmentList rs), w3)))))"

section \<open>POST /submit\<close>

text \<open>
  Lines 207-212. \<^verbatim>\<open>MediaFileUpload\<close> opens the local file, so it raises when the
  file does not exist; the result is \<^verbatim>\<open>file.get('id')\<close>.
\<close>

definition upload_call :: "string \<Rightarrow> call" where
  "upload_call file_path =
     Call ''files.create'' [(''fields'', ''id'')] (FileUpload (os_path_basename file_path) file_path)"

definition upload_file_to_drive :: "env \<Rightarrow> string \<Rightarrow> world \<Rightarrow> (exn + string option) \<times> world" where
  "upload_file_to_drive env file_path w =
     (case files w file_path of
        None \<Rightarrow> (Inl (Exn FileNotFoundError file_path), w)
      | Some content \<Rightarrow> api_call (upload_call file_path) (files_create env) w)"

definition create_call :: "string \<Rightarrow> string \<Rightarrow> call" where
  "create_call course_id coursework_id =
     Call ''courses.courseWork.studentSubmissions.create''
       [(''courseId'', course_id), (''courseWorkId'', coursework_id)]
       (StateBody ''DRAFT'')"

definition patch_call :: "string \<Rightarrow> string \<Rightarrow> string \<Rightarrow> string option \<Rightarrow> string \<Rightarrow> call" where
  "patch_call course_id coursework_id submission_id file_id filename =
     Call ''courses.courseWork.studentSubmissions.patch''
       [(''courseId'', course_id), (''courseWorkId'', coursework_id), (''id'', submission_id),
        (''updateMask'', ''addAttachments'')]
       (AddAttachments [DriveFile file_id filename])"

text \<open>Lines 235-237, with the keyword arguments as the source passes them.\<close>

definition turnIn_call :: "string \<Rightarrow> string \<Rightarrow> call" where
  "turnIn_call coursework_id submission_id =
     Call ''courses.courseWork.studentSubmissions.turnIn''
       [(''courseId'', coursework_id), (''id'', submission_id)]
       NoBody"

text \<open>Lines 216-227: the submission to work on, listed or created.\<close>

definition find_submission :: "env \<Rightarrow> string \<Rightarrow> string \<Rightarrow> world \<Rightarrow> (exn + submission) \<times> world" where
  "find_submission env course_id coursework_id w =
     (case api_call (list_call course_id coursework_id) (submissions_list env) w of
        (Inl e, w1) \<Rightarrow> (Inl e, w1)
      | (Inr [], w1) \<Rightarrow>
          api_call (create_call course_id coursework_id) (submissions_create env) w1
      | (Inr (s # rest), w1) \<Rightarrow>
          if sub_state s = ''TURNED_IN''
          then (Inl (Exn PlainException ''Assignment already turned in.''), w1)
          else (Inr s, w1))"

definition submit_assignment ::
  "env \<Rightarrow> string \<Rightarrow> string \<Rightarrow> string option \<Rightarrow> string \<Rightarrow> world \<Rightarrow> (exn + unit) \<times> world" where
  "submit_assignment env course_id coursework_id file_id filename w =
     (case find_submission env course_id coursework_id w of
        (Inl e, w1) \<Rightarrow> (Inl e, w1)
      | (Inr s, w1) \<Rightarrow>
          (case api_call (patch_call course_id coursework_id (sub_id s) file_id filename)
                  (submissions_patch env) w1 of
             (Inl e, w2) \<Rightarrow> (Inl e, w2)
           | (Inr u, w2) \<Rightarrow>
               api_call (turnIn_call coursework_id (sub_id s)) (submissions_turnIn env) w2))"

text \<open>The body of the \<^verbatim>\<open>try\<close> of lines 197-203.\<close>

definition submit_body ::
  "env \<Rightarrow> string \<Rightarrow> string \<Rightarrow> string \<Rightarrow> string \<Rightarrow> world \<Rightarrow> (exn + response) \<times> world" where
  "submit_body env course_id coursework_id file_path filename w =
     (case upload_file_to_drive env file_path w of
        (Inl e, w1) \<Rightarrow> (Inl e, w1)
      | (Inr file_id, w1) \<Rightarrow>
          (case submit_assignment env course_id coursework_id file_id filename w1 of
             (Inl e, w2) \<Rightarrow> (Inl e, w2)
           | (Inr u, w2) \<Rightarrow>
               (case os_remove file_path w2 of
                  Inl e \<Rightarrow> (Inl e, w2)
                | Inr w3 \<Rightarrow>
                    (Inr (Message (''Assignment '' @ coursework_id @ '' submitted successfully.'')),
                     w3))))"

text \<open>
  Lines 186-205. The scratch directory is made and the upload is saved before the
  \<^verbatim>\<open>try\<close>, so a failure there leaves the handler as an exception.
\<close>

definition submit :: "env \<Rightarrow> request \<Rightarrow> world \<Rightarrow> (exn + response) \<times> world" where
  "submit env req w =
     (case authenticate env w of
        (Inl e, w1) \<Rightarrow> (Inl e, w1)
      | (Inr creds, w1) \<Rightarrow>
          (case get_services env creds of
             Inl e \<Rightarrow> (Inl e, w1)
           | Inr u \<Rightarrow>
               (case form_get req ''course_id'' of
                  Inl e \<Rightarrow> (Inl e, w1)
                | Inr course_id \<Rightarrow>
                    (case form_get req ''assignment_id'' of
                       Inl e \<Rightarrow> (Inl e, w1)
                     | Inr coursework_id \<Rightarrow>
                         (case files_get req of
                            Inl e \<Rightarrow> (Inl e, w1)
                          | Inr (filename, content) \<Rightarrow>
                              (let file_path = os_path_join ''uploads'' filename
                               in case os_makedirs env ''uploads'' of
                                    Some e \<Rightarrow> (Inl e, w1)
                                  | None \<Rightarrow>
                                      (case file_save env file_path content w1 of
                                         Inl e \<Rightarrow> (Inl e, w1)
                                       | Inr w2 \<Rightarrow>
                                           (case submit_body env course_id coursework_id
                                                   file_path filename w2 of
                                              (Inl e, w3) \<Rightarrow>
                                                (Inr (ErrorResponse 500 (exn_str e)), w3)
                                            | (Inr r, w3) \<Rightarrow> (Inr r, w3)))))))))"

section \<open>Observations on a run\<close>

text \<open>
  The events a run added to the trace, the calls that were sent among them, and the calls
  the program made, sent or rejected.
\<close>

definition new_events :: "world \<Rightarrow> world \<Rightarrow> event list" where
  "new_events w w' = drop (length (trace w)) (trace w')"

fun remote_calls :: "event list \<Rightarrow> call list" where
  "remote_calls [] = []"
| "remote_calls (ECall c # evs) = c # remote_calls evs"
| "remote_calls (ev # evs) = remote_calls evs"

fun attempted_calls :: "event list \<Rightarrow> call list" where
  "attempted_calls [] = []"
| "attempted_calls (ECall c # evs) = c # attempted_calls evs"
| "attempted_calls (ERejected c # evs) = c # attempted_calls evs"
| "attempted_calls (ev # evs) = attempted_calls evs"

text \<open>
  The answer of the submission listing for the \<open>i\<close>-th coursework item of the loop of
  \<^verbatim>\<open>assignments\<close> started in world \<open>w\<close>: by then the loop has made one listing call
  for each earlier item.
\<close>

definition listing :: "env \<Rightarrow> string \<Rightarrow> work list \<Rightarrow> world \<Rightarrow> nat \<Rightarrow> exn + submission list" where
  "listing env course_id wks w i =
     submissions_list env
       (trace w @ map (\<lambda>wk. ECall (list_call course_id (work_id wk))) (take i wks))
       (list_call course_id (work_id (wks ! i)))"

text \<open>
  A concrete environment and world for evaluating the handlers: a stored credential that
  is valid, a course with two coursework items and no submission yet; the listings and
  the upload to Drive answer, and the scratch area can be written.
\<close>

definition sample_env :: env where
  "sample_env =
     \<lparr>json_load = (\<lambda>txt.
         if txt = ''null'' then Inr JNull
         else if txt = ''{}'' then Inr (JObj [])
         else if txt = ''stored'' then Inr (JObj [(''token'', JStr ''t0''), (''refresh_token'', JStr ''r0'')])
         else Inl (Exn JSONDecodeError ''Expecting value'')),
      from_authorized_user_info = (\<lambda>j.
         Inr \<lparr>token = Some ''t0'', refresh_token = Some ''r0'', expired = False\<rparr>),
      to_json = (\<lambda>c. ''stored''),
      refresh = (\<lambda>c. Inr (c\<lparr>token := Some ''t1'', expired := False\<rparr>)),
      parse_client_secrets = (\<lambda>txt. None),
      run_local_server = Inr \<lparr>token = Some ''t2'', refresh_token = Some ''r2'', expired = False\<rparr>,
      build_services = (\<lambda>c. None),
      coursework_list = (\<lambda>h c.
         Inr [\<lparr>work_id = ''w1'', work_title = ''Essay'',
                work_dueDate = Some [(''year'', PyInt 2024), (''month'', PyInt 5)]\<rparr>,
              \<lparr>work_id = ''w2'', work_title = ''Quiz'', work_dueDate = Some []\<rparr>]),
      submissions_list = (\<lambda>h c. Inr []),
      submissions_create = (\<lambda>h c. Inl (Exn (LibraryError ''HttpError'') ''404 Not Found'')),
      submissions_patch = (\<lambda>h c. Inl (Exn (LibraryError ''HttpError'') ''400 Bad Request'')),
      submissions_turnIn = (\<lambda>h c. Inl (Exn (LibraryError ''HttpError'') ''404 Not Found'')),
      files_create = (\<lambda>h c. Inr (Some ''f1'')),
      courses_list = (\<lambda>h c. Inr [(''c1'', ''Writing'')]),
      os_makedirs = (\<lambda>p. None),
      open_for_writing = (\<lambda>p. None)\<rparr>"

definition sample_world :: world where
  "sample_world =
     \<lparr>token_file = Some ''stored'', credentials_file = Some ''client'',
      files = (\<lambda>p. None), trace = []\<rparr>"

definition sample_request :: request where
  "sample_request =
     \<lparr>form = [(''course_id'', ''c1''), (''assignment_id'', ''w1'')],
      upload = Some (''essay.txt'', ''text'')\<rparr>"

section \<open>Properties of authenticate\<close>

lemma new_events_append: "trace w' = trace w @ evs \<Longrightarrow> new_events w w' = evs"
  by (simp add: new_events_def)

lemma new_events_self: "new_events w w = []"
  by (simp add: new_events_def)

lemma try_unlink_cases:
  "try_unlink w = (case token_file w of None \<Rightarrow> w | Some t \<Rightarrow> emit EUnlink (w\<lparr>token_file := None\<rparr>))"
  by (simp add: try_unlink_def unlink_token_def split: option.splits)

lemma load_body_Some: "load_body env txt w = (Inr (Some c), w1) \<Longrightarrow> w1 = w"
  by (auto simp: load_body_def split: sum.splits if_splits)

lemma load_token_Some: "load_token env w = (Inr (Some c), w1) \<Longrightarrow> w1 = w"
  by (auto simp: load_token_def dest: load_body_Some split: option.splits sum.splits prod.splits if_splits)

lemma load_body_world:
  "load_body env txt w = (r, w1) \<Longrightarrow> w1 = w \<or> (r = Inr None \<and> w1 = try_unlink w)"
  by (auto simp: load_body_def split: sum.splits if_splits)

lemma load_token_world:
  assumes "load_token env w = (r, w1)"
  shows "w1 = w \<or> (r = Inr None \<and> token_file w \<noteq> None \<and> w1 = emit EUnlink (w\<lparr>token_file := None\<rparr>))"
proof (cases "token_file w")
  case None
  with assms show ?thesis by (simp add: load_token_def)
next
  case (Some content)
  obtain r0 w0 where b: "load_body env content w = (r0, w0)" by (cases "load_body env content w")
  from load_body_world [OF b] have w0: "w0 = w \<or> (r0 = Inr None \<and> w0 = try_unlink w)" .
  have tu: "try_unlink w = emit EUnlink (w\<lparr>token_file := None\<rparr>)"
    using Some by (simp add: try_unlink_cases)
  have tu2: "try_unlink (try_unlink w) = try_unlink w"
    using Some by (simp add: try_unlink_cases emit_def)
  from assms Some b w0 tu show ?thesis
    by (auto simp: load_token_def split: sum.splits if_splits)
qed

text \<open>
  Claim C7. When the credential loaded from the token file is valid (it has an access
  token and is not expired), \<^verbatim>\<open>authenticate\<close> returns that credential and leaves the
  world as it was: no event is added to the trace, so the interactive consent flow is not
  invoked.
\<close>

theorem valid_credential_returned_as_is:
  assumes "load_token env w = (Inr (Some c), w1)" and "cred_valid c"
  shows "authenticate env w = (Inr c, w) \<and> \<not> expired c
         \<and> EConsent \<notin> set (new_events w (snd (authenticate env w)))"
proof -
  from assms(1) have "w1 = w" by (rule load_token_Some)
  with assms have "authenticate env w = (Inr c, w)"
    by (simp add: authenticate_def)
  with assms(2) show ?thesis
    by (simp add: new_events_self cred_valid_def)
qed

text \<open>
  Claim C6. When the loaded credential is expired and carries a refresh token,
  \<^verbatim>\<open>authenticate\<close> calls the refresh of the authorisation server, returns what the
  refresh returns (its exception included), and the consent flow is not among the events
  of the run.
\<close>

theorem expired_credential_is_refreshed:
  assumes "load_token env w = (Inr (Some c), w1)" and "expired c" and "truthy (refresh_token c)"
  shows "fst (authenticate env w) = refresh env c
         \<and> (\<exists>evs. new_events w (snd (authenticate env w)) = ERefresh # evs \<and> EConsent \<notin> set evs)"
proof -
  from assms(1) have w1: "w1 = w" by (rule load_token_Some)
  from assms(2) have nv: "\<not> cred_valid c" by (simp add: cred_valid_def)
  from assms w1 nv have a: "authenticate env w = save_if_valid env (refresh_step env c w)"
    by (simp add: authenticate_def)
  show ?thesis
  proof (cases "refresh env c")
    case (Inl e)
    then have "authenticate env w = (Inl e, emit ERefresh w)"
      by (simp add: a refresh_step_def save_if_valid_def)
    with Inl show ?thesis by (simp add: new_events_def emit_def)
  next
    case (Inr c')
    then have "authenticate env w
                 = (Inr c', if cred_valid c' then save_token env c' (emit ERefresh w) else emit ERefresh w)"
      by (simp add: a refresh_step_def save_if_valid_def)
    with Inr show ?thesis by (simp add: new_events_def emit_def save_token_def)
  qed
qed


lemma load_token_trace:
  assumes "load_token env w = (r, w1)"
  shows "(trace w1 = trace w \<or> trace w1 = trace w @ [EUnlink])
         \<and> files w1 = files w \<and> credentials_file w1 = credentials_file w"
  using load_token_world [OF assms] by (auto simp: emit_def)

lemma save_consent_outcome:
  assumes "save_if_valid env (consent_step env w1) = (r, w')"
  shows "(\<exists>e. r = Inl e \<and> token_file w' = token_file w1
              \<and> (trace w' = trace w1 \<or> (trace w' = trace w1 @ [EConsent] \<and> run_local_server env = Inl e)))
       \<or> (\<exists>c. r = Inr c \<and> run_local_server env = Inr c
              \<and> (if cred_valid c
                  then trace w' = trace w1 @ [EConsent, EWrite (to_json env c)]
                       \<and> token_file w' = Some (to_json env c)
                  else trace w' = trace w1 @ [EConsent] \<and> token_file w' = token_file w1))"
proof (cases "flow_from_client_secrets env w1")
  case (Inl e)
  with assms have "r = Inl e" and "w' = w1"
    by (simp_all add: save_if_valid_def consent_step_def)
  then show ?thesis by simp
next
  case flow: (Inr u)
  show ?thesis
  proof (cases "run_local_server env")
    case (Inl e)
    with flow assms have "r = Inl e" and "w' = emit EConsent w1"
      by (simp_all add: save_if_valid_def consent_step_def)
    with Inl show ?thesis by (simp add: emit_def)
  next
    case (Inr c)
    with flow assms have "r = Inr c"
      and "w' = (if cred_valid c then save_token env c (emit EConsent w1) else emit EConsent w1)"
      by (simp_all add: save_if_valid_def consent_step_def)
    with Inr show ?thesis by (simp add: emit_def save_token_def)
  qed
qed

lemma save_refresh_outcome:
  assumes "save_if_valid env (refresh_step env c0 w1) = (r, w')"
  shows "r = refresh env c0
       \<and> ((\<exists>e. r = Inl e \<and> token_file w' = token_file w1 \<and> trace w' = trace w1 @ [ERefresh])
         \<or> (\<exists>c. r = Inr c
              \<and> (if cred_valid c
                  then trace w' = trace w1 @ [ERefresh, EWrite (to_json env c)]
                       \<and> token_file w' = Some (to_json env c)
                  else trace w' = trace w1 @ [ERefresh] \<and> token_file w' = token_file w1)))"
proof (cases "refresh env c0")
  case (Inl e)
  with assms have "r = Inl e" and "w' = emit ERefresh w1"
    by (simp_all add: save_if_valid_def refresh_step_def)
  with Inl show ?thesis by (simp add: emit_def)
next
  case (Inr c)
  with assms have "r = Inr c"
    and "w' = (if cred_valid c then save_token env c (emit ERefresh w1) else emit ERefresh w1)"
    by (simp_all add: save_if_valid_def refresh_step_def)
  with Inr show ?thesis by (simp add: emit_def save_token_def)
qed

lemma authenticate_cases:
  assumes "authenticate env w = (r, w')"
  obtains (load_raised) e where "load_token env w = (Inl e, w')" "r = Inl e"
   | (valid) c where "load_token env w = (Inr (Some c), w)" "cred_valid c" "r = Inr c" "w' = w"
   | (refreshed) c where "load_token env w = (Inr (Some c), w)" "\<not> cred_valid c"
        "expired c" "truthy (refresh_token c)" "save_if_valid env (refresh_step env c w) = (r, w')"
   | (consent) w1 where "\<exists>cr. load_token env w = (Inr cr, w1)"
        "save_if_valid env (consent_step env w1) = (r, w')"
proof -
  obtain r0 w1 where l: "load_token env w = (r0, w1)" by (cases "load_token env w")
  show thesis
  proof (cases r0)
    case (Inl e)
    with l assms show thesis by (intro load_raised [of e]) (auto simp: authenticate_def)
  next
    case (Inr cr)
    show thesis
    proof (cases cr)
      case None
      with l Inr assms show thesis by (intro consent [of w1]) (auto simp: authenticate_def)
    next
      case (Some c)
      with l Inr have w1: "w1 = w" by (auto dest: load_token_Some)
      show thesis
      proof (cases "cred_valid c")
        case True
        with l Inr Some w1 assms show thesis by (intro valid [of c]) (auto simp: authenticate_def)
      next
        case False
        show thesis
        proof (cases "expired c \<and> truthy (refresh_token c)")
          case True
          with False l Inr Some w1 assms show thesis
            by (intro refreshed [of c]) (auto simp: authenticate_def)
        next
          case nr: False
          with False l Inr Some w1 assms show thesis
            by (intro consent [of w1]) (auto simp: authenticate_def)
        qed
      qed
    qed
  qed
qed


theorem valid_credential_returned_as_is_witness:
  "load_token sample_env sample_world
     = (Inr (Some \<lparr>token = Some ''t0'', refresh_token = Some ''r0'', expired = False\<rparr>), sample_world)
   \<and> cred_valid \<lparr>token = Some ''t0'', refresh_token = Some ''r0'', expired = False\<rparr>
   \<and> authenticate sample_env sample_world
     = (Inr \<lparr>token = Some ''t0'', refresh_token = Some ''r0'', expired = False\<rparr>, sample_world)"
proof -
  have l: "load_token sample_env sample_world
     = (Inr (Some \<lparr>token = Some ''t0'', refresh_token = Some ''r0'', expired = False\<rparr>), sample_world)"
    by (simp add: load_token_def load_body_def sample_env_def sample_world_def)
  have v: "cred_valid \<lparr>token = Some ''t0'', refresh_token = Some ''r0'', expired = False\<rparr>"
    by (simp add: cred_valid_def)
  from valid_credential_returned_as_is [OF l v] l v show ?thesis by simp
qed

theorem expired_credential_is_refreshed_witness:
  "fst (authenticate
          (sample_env\<lparr>from_authorized_user_info :=
             \<lambda>j. Inr \<lparr>token = Some ''t0'', refresh_token = Some ''r0'', expired = True\<rparr>\<rparr>)
          sample_world)
     = Inr \<lparr>token = Some ''t1'', refresh_token = Some ''r0'', expired = False\<rparr>
   \<and> (\<exists>evs. new_events sample_world
               (snd (authenticate
                  (sample_env\<lparr>from_authorized_user_info :=
                     \<lambda>j. Inr \<lparr>token = Some ''t0'', refresh_token = Some ''r0'', expired = True\<rparr>\<rparr>)
                  sample_world))
             = ERefresh # evs \<and> EConsent \<notin> set evs)"
proof -
  let ?c = "\<lparr>token = Some ''t0'', refresh_token = Some ''r0'', expired = True\<rparr>"
  let ?env = "sample_env\<lparr>from_authorized_user_info := \<lambda>j. Inr ?c\<rparr>"
  have l: "load_token ?env sample_world = (Inr (Some ?c), sample_world)"
    by (simp add: load_token_def load_body_def sample_env_def sample_world_def)
  have e: "expired ?c" by simp
  have t: "truthy (refresh_token ?c)" by simp
  have r: "refresh ?env ?c = Inr \<lparr>token = Some ''t1'', refresh_token = Some ''r0'', expired = False\<rparr>"
    by (simp add: sample_env_def)
  from expired_credential_is_refreshed [OF l e t] r show ?thesis by simp
qed

section \<open>Failures of authenticate\<close>

lemma authenticate_failure_writes_nothing:
  assumes "authenticate env w = (Inl e, w')"
  shows "EWrite s \<notin> set (new_events w w')"
  using assms
proof (cases rule: authenticate_cases)
  case (load_raised e')
  from load_token_trace [OF load_raised(1)] show ?thesis
    by (auto simp: new_events_def)
next
  case (valid c)
  then show ?thesis by simp
next
  case (refreshed c)
  from save_refresh_outcome [OF refreshed(5)] show ?thesis
    by (auto simp: new_events_def)
next
  case (consent w1)
  then obtain cr where l: "load_token env w = (Inr cr, w1)" by blast
  from load_token_trace [OF l] save_consent_outcome [OF consent(2)] show ?thesis
    by (auto simp: new_events_def)
qed

lemma authenticate_write_is_valid:
  assumes "authenticate env w = (r, w')" and "EWrite s \<in> set (new_events w w')"
  shows "\<exists>c. r = Inr c \<and> cred_valid c \<and> s = to_json env c \<and> token_file w' = Some s"
  using assms(1)
proof (cases rule: authenticate_cases)
  case (load_raised e')
  from load_token_trace [OF load_raised(1)] assms(2) show ?thesis
    by (auto simp: new_events_def)
next
  case (valid c)
  with assms(2) show ?thesis by (simp add: new_events_self)
next
  case (refreshed c)
  from save_refresh_outcome [OF refreshed(5)] assms(2) show ?thesis
    by (auto simp: new_events_def split: if_splits)
next
  case (consent w1)
  then obtain cr where l: "load_token env w = (Inr cr, w1)" by blast
  from load_token_trace [OF l] save_consent_outcome [OF consent(2)] assms(2) show ?thesis
    by (auto simp: new_events_def split: if_splits)
qed

lemma authenticate_refresh_branch:
  assumes "load_token env w = (Inr (Some c), w1)" and "expired c" and "truthy (refresh_token c)"
  shows "authenticate env w = save_if_valid env (refresh_step env c w)"
proof -
  from assms(1) have "w1 = w" by (rule load_token_Some)
  moreover from assms(2) have "\<not> cred_valid c" by (simp add: cred_valid_def)
  ultimately show ?thesis using assms by (simp add: authenticate_def)
qed

lemma authenticate_refresh_error:
  assumes "authenticate env w = (r, w')" and "load_token env w = (Inr (Some c), w1)"
    and "expired c" and "truthy (refresh_token c)" and "refresh env c = Inl e"
  shows "r = Inl e"
proof -
  from assms(1) authenticate_refresh_branch [OF assms(2-4)]
  have "save_if_valid env (refresh_step env c w) = (r, w')" by simp
  from save_refresh_outcome [OF this] assms(5) show ?thesis by simp
qed

lemma authenticate_consent_error:
  assumes "authenticate env w = (r, w')" and "EConsent \<in> set (new_events w w')"
    and "run_local_server env = Inl e"
  shows "r = Inl e"
  using assms(1)
proof (cases rule: authenticate_cases)
  case (load_raised e')
  from load_token_trace [OF load_raised(1)] assms(2) show ?thesis
    by (auto simp: new_events_def)
next
  case (valid c)
  with assms(2) show ?thesis by (simp add: new_events_self)
next
  case (refreshed c)
  from save_refresh_outcome [OF refreshed(5)] assms(2) show ?thesis
    by (auto simp: new_events_def split: if_splits)
next
  case (consent w1)
  then obtain cr where l: "load_token env w = (Inr cr, w1)" by blast
  from load_token_trace [OF l] save_consent_outcome [OF consent(2)] assms(2,3) show ?thesis
    by (auto simp: new_events_def split: if_splits)
qed

lemma handlers_propagate:
  assumes "authenticate env w = (Inl e, w')"
  shows "submit env req w = (Inl e, w')" and "assignments env course_id w = (Inl e, w')"
    and "courses env w = (Inl e, w')"
  using assms by (simp_all add: submit_def assignments_def courses_def)

text \<open>
  In every run of \<^verbatim>\<open>authenticate\<close>: when the refresh of an expired loaded
  credential raises, or the consent flow has been started and raises, the same exception
  leaves \<^verbatim>\<open>authenticate\<close>; whenever an exception leaves \<^verbatim>\<open>authenticate\<close>, the
  run wrote nothing to the token file and the handlers \<^verbatim>\<open>submit\<close>,
  \<^verbatim>\<open>assignments\<close> and \<^verbatim>\<open>courses\<close> let the exception through unhandled; and
  whenever the run wrote the token file, it wrote the serialisation of the credential it
  returns, which is valid.
\<close>

lemma authenticate_errors_propagate_and_writes_are_valid:
  assumes "authenticate env w = (r, w')"
  shows "(\<forall>c w1 e. load_token env w = (Inr (Some c), w1) \<and> expired c \<and> truthy (refresh_token c)
                    \<and> refresh env c = Inl e \<longrightarrow> r = Inl e)
       \<and> (\<forall>e. EConsent \<in> set (new_events w w') \<and> run_local_server env = Inl e \<longrightarrow> r = Inl e)
       \<and> (\<forall>e. r = Inl e \<longrightarrow>
             (\<forall>s. EWrite s \<notin> set (new_events w w'))
             \<and> submit env req w = (Inl e, w') \<and> assignments env course_id w = (Inl e, w')
             \<and> courses env w = (Inl e, w'))
       \<and> (\<forall>s. EWrite s \<in> set (new_events w w') \<longrightarrow>
             (\<exists>c. r = Inr c \<and> cred_valid c \<and> s = to_json env c \<and> token_file w' = Some s))"
  using assms authenticate_refresh_error [OF assms] authenticate_consent_error [OF assms]
    authenticate_failure_writes_nothing [of env w _ w'] handlers_propagate [of env w _ w']
    authenticate_write_is_valid [OF assms]
  by blast


lemma authenticate_errors_propagate_and_writes_are_valid_example:
  "fst (authenticate
          (sample_env\<lparr>from_authorized_user_info :=
               \<lambda>j. Inr \<lparr>token = Some ''t0'', refresh_token = Some ''r0'', expired = True\<rparr>,
             refresh := \<lambda>c. Inl (Exn (LibraryError ''RefreshError'') ''invalid_grant'')\<rparr>)
          sample_world)
     = Inl (Exn (LibraryError ''RefreshError'') ''invalid_grant'')
   \<and> (\<forall>s. EWrite s \<notin> set (new_events sample_world
          (snd (authenticate
             (sample_env\<lparr>from_authorized_user_info :=
                  \<lambda>j. Inr \<lparr>token = Some ''t0'', refresh_token = Some ''r0'', expired = True\<rparr>,
                refresh := \<lambda>c. Inl (Exn (LibraryError ''RefreshError'') ''invalid_grant'')\<rparr>)
             sample_world))))
   \<and> fst (authenticate
          (sample_env\<lparr>run_local_server := Inl (Exn (LibraryError ''AccessDeniedError'') ''access_denied'')\<rparr>)
          (sample_world\<lparr>token_file := None\<rparr>))
     = Inl (Exn (LibraryError ''AccessDeniedError'') ''access_denied'')
   \<and> (\<exists>c. fst (authenticate sample_env (sample_world\<lparr>token_file := None\<rparr>)) = Inr c
          \<and> cred_valid c
          \<and> token_file (snd (authenticate sample_env (sample_world\<lparr>token_file := None\<rparr>)))
              = Some (to_json sample_env c))"
proof -
  let ?c = "\<lparr>token = Some ''t0'', refresh_token = Some ''r0'', expired = True\<rparr>"
  let ?envR = "sample_env\<lparr>from_authorized_user_info := \<lambda>j. Inr ?c,
                 refresh := \<lambda>c. Inl (Exn (LibraryError ''RefreshError'') ''invalid_grant'')\<rparr>"
  let ?envC = "sample_env\<lparr>run_local_server := Inl (Exn (LibraryError ''AccessDeniedError'') ''access_denied'')\<rparr>"
  let ?w0 = "sample_world\<lparr>token_file := None\<rparr>"
  note T = authenticate_errors_propagate_and_writes_are_valid [OF surjective_pairing, where req = sample_request and course_id = "''c1''"]
  have l: "load_token ?envR sample_world = (Inr (Some ?c), sample_world)"
    by (simp add: load_token_def load_body_def sample_env_def sample_world_def)
  have r: "refresh ?envR ?c = Inl (Exn (LibraryError ''RefreshError'') ''invalid_grant'')"
    by simp
  from T [of ?envR sample_world] l r
  have a: "fst (authenticate ?envR sample_world) = Inl (Exn (LibraryError ''RefreshError'') ''invalid_grant'')"
    by simp
  with T [of ?envR sample_world]
  have b: "\<forall>s. EWrite s \<notin> set (new_events sample_world (snd (authenticate ?envR sample_world)))"
    by blast
  have c1: "EConsent \<in> set (new_events ?w0 (snd (authenticate ?envC ?w0)))"
    by (simp add: authenticate_def load_token_def consent_step_def flow_from_client_secrets_def
          save_if_valid_def new_events_def emit_def sample_env_def sample_world_def)
  have c2: "run_local_server ?envC = Inl (Exn (LibraryError ''AccessDeniedError'') ''access_denied'')"
    by simp
  from T [of ?envC ?w0] c1 c2
  have c: "fst (authenticate ?envC ?w0) = Inl (Exn (LibraryError ''AccessDeniedError'') ''access_denied'')"
    by blast
  have d1: "EWrite ''stored'' \<in> set (new_events ?w0 (snd (authenticate sample_env ?w0)))"
    by (simp add: authenticate_def load_token_def consent_step_def flow_from_client_secrets_def
          save_if_valid_def save_token_def cred_valid_def new_events_def emit_def
          sample_env_def sample_world_def)
  from T [of sample_env ?w0] d1
  have "\<exists>c. fst (authenticate sample_env ?w0) = Inr c \<and> cred_valid c
           \<and> ''stored'' = to_json sample_env c
           \<and> token_file (snd (authenticate sample_env ?w0)) = Some ''stored''"
    by blast
  then have d: "\<exists>c. fst (authenticate sample_env ?w0) = Inr c \<and> cred_valid c
              \<and> token_file (snd (authenticate sample_env ?w0)) = Some (to_json sample_env c)"
    by auto
  from a b c d show ?thesis by blast
qed

section \<open>Loading the token file\<close>

text \<open>
  The load is absent and deletes the file when the text does not decode, or decodes to a
  dict, a list or a string that does not contain \<^verbatim>\<open>refresh_token\<close>; a missing file is
  absent with no effect; data that is \<^verbatim>\<open>null\<close>, a bool or a number makes the
  membership test raise, and the exception leaves the load with the file in place.
\<close>

lemma load_token_missing: "token_file w = None \<Longrightarrow> load_token env w = (Inr None, w)"
  by (simp add: load_token_def)

lemma load_token_undecodable:
  assumes "token_file w = Some t" and "json_load env t = Inl e"
    and "exn_cls e = UnicodeDecodeError \<or> exn_cls e = JSONDecodeError"
  shows "load_token env w = (Inr None, emit EUnlink (w\<lparr>token_file := None\<rparr>))"
  using assms by (auto simp: load_token_def load_body_def try_unlink_cases)

lemma load_token_without_refresh_token:
  assumes "token_file w = Some t" and "json_load env t = Inr token_data"
    and "py_in ''refresh_token'' token_data = Inr False"
  shows "load_token env w = (Inr None, emit EUnlink (w\<lparr>token_file := None\<rparr>))"
  using assms by (simp add: load_token_def load_body_def try_unlink_cases)

lemma load_token_scalar:
  assumes "token_file w = Some t" and "json_load env t = Inr token_data"
    and "token_data = JNull \<or> (\<exists>b. token_data = JBool b) \<or> (\<exists>n. token_data = JNum n)"
  shows "\<exists>m. load_token env w = (Inl (Exn TypeError m), w)"
  using assms by (auto simp: load_token_def load_body_def)

text \<open>
  Claim C3, at a token file holding the JSON text \<^verbatim>\<open>null\<close>: the contents are valid
  JSON with no refresh token, the test of line 52 raises \<^verbatim>\<open>TypeError\<close>, which
  the handler of line 61 does not catch; the load does not return absent,
  \<^verbatim>\<open>authenticate\<close> raises, and the token file is still there afterwards.
\<close>

theorem load_of_null_token_file_raises:
  "json_load sample_env ''null'' = Inr JNull
   \<and> load_token sample_env (sample_world\<lparr>token_file := Some ''null''\<rparr>)
       = (Inl (Exn TypeError ''argument of type 'NoneType' is not iterable''),
          sample_world\<lparr>token_file := Some ''null''\<rparr>)
   \<and> authenticate sample_env (sample_world\<lparr>token_file := Some ''null''\<rparr>)
       = (Inl (Exn TypeError ''argument of type 'NoneType' is not iterable''),
          sample_world\<lparr>token_file := Some ''null''\<rparr>)
   \<and> token_file (snd (authenticate sample_env (sample_world\<lparr>token_file := Some ''null''\<rparr>)))
       = Some ''null''"
  by (simp add: authenticate_def load_token_def load_body_def sample_env_def sample_world_def)

section \<open>GET /auth with a stored token\<close>

lemma auth_with_token:
  assumes "credentials_file w = Some cfg" and "token_file w = Some t"
  shows "auth env w =
     (case parse_client_secrets env cfg of
        Some e \<Rightarrow> (Inr (ErrorResponse 500 (''Authentication failed: '' @ exn_str e)),
                   emit EUnlink (w\<lparr>token_file := None\<rparr>))
      | None \<Rightarrow>
         (case run_local_server env of
            Inl e \<Rightarrow> (Inr (ErrorResponse 500 (''Authentication failed: '' @ exn_str e)),
                      emit EConsent (emit EUnlink (w\<lparr>token_file := None\<rparr>)))
          | Inr creds \<Rightarrow> (Inr (Redirect ''/courses''),
                      save_token env creds (emit EConsent (emit EUnlink (w\<lparr>token_file := None\<rparr>))))))"
  using assms
  by (simp add: auth_def unlink_token_def auth_body_def flow_from_client_secrets_def emit_def
        split: option.splits sum.splits)

text \<open>
  Claim C10. In a run of the handler of \<^verbatim>\<open>/auth\<close> with the client configuration and
  a token file present, the deletion of the token file is the first event, before the
  consent flow; when the flow then fails (the client configuration is rejected or the
  interactive step raises), the handler answers with status 500 and the message of the
  exception, and the token file stays deleted.
\<close>

theorem auth_deletes_token_before_consent:
  assumes "credentials_file w = Some cfg" and "token_file w = Some t"
  shows "(\<exists>evs. new_events w (snd (auth env w)) = EUnlink # evs \<and> EUnlink \<notin> set evs)
       \<and> (\<forall>e. parse_client_secrets env cfg = Some e
                \<or> (parse_client_secrets env cfg = None \<and> run_local_server env = Inl e)
              \<longrightarrow> fst (auth env w) = Inr (ErrorResponse 500 (''Authentication failed: '' @ exn_str e))
                  \<and> token_file (snd (auth env w)) = None)"
proof (cases "parse_client_secrets env cfg")
  case (Some e)
  with auth_with_token [OF assms, of env] show ?thesis
    by (simp add: new_events_def emit_def)
next
  case None
  show ?thesis
  proof (cases "run_local_server env")
    case (Inl e)
    with None auth_with_token [OF assms, of env] show ?thesis
      by (simp add: new_events_def emit_def)
  next
    case (Inr creds)
    with None auth_with_token [OF assms, of env] show ?thesis
      by (simp add: new_events_def emit_def save_token_def)
  qed
qed

theorem auth_deletes_token_before_consent_witness:
  "credentials_file sample_world = Some ''client'' \<and> token_file sample_world = Some ''stored''
   \<and> run_local_server (sample_env\<lparr>run_local_server := Inl (Exn (LibraryError ''AccessDeniedError'') ''access_denied'')\<rparr>)
       = Inl (Exn (LibraryError ''AccessDeniedError'') ''access_denied'')
   \<and> fst (auth (sample_env\<lparr>run_local_server := Inl (Exn (LibraryError ''AccessDeniedError'') ''access_denied'')\<rparr>)
            sample_world)
       = Inr (ErrorResponse 500 ''Authentication failed: access_denied'')
   \<and> token_file (snd (auth (sample_env\<lparr>run_local_server := Inl (Exn (LibraryError ''AccessDeniedError'') ''access_denied'')\<rparr>)
            sample_world)) = None"
proof -
  let ?env = "sample_env\<lparr>run_local_server := Inl (Exn (LibraryError ''AccessDeniedError'') ''access_denied'')\<rparr>"
  have c: "credentials_file sample_world = Some ''client''" by (simp add: sample_world_def)
  have t: "token_file sample_world = Some ''stored''" by (simp add: sample_world_def)
  have p: "parse_client_secrets ?env ''client'' = None" by (simp add: sample_env_def)
  have r: "run_local_server ?env = Inl (Exn (LibraryError ''AccessDeniedError'') ''access_denied'')" by simp
  from auth_deletes_token_before_consent [OF c t, of ?env] p r
  have "fst (auth ?env sample_world)
          = Inr (ErrorResponse 500 (''Authentication failed: '' @ exn_str (Exn (LibraryError ''AccessDeniedError'') ''access_denied'')))
        \<and> token_file (snd (auth ?env sample_world)) = None"
    by blast
  with c t r show ?thesis by simp
qed

section \<open>The write of GET /auth\<close>

text \<open>
  Claim C9, at a request to \<^verbatim>\<open>/auth\<close> whose consent flow returns a credential that the
  library reports as expired, hence not valid: the handler writes that credential to the
  token file (lines 148-149 have no test of \<^verbatim>\<open>creds.valid\<close>) and redirects.
  \<^verbatim>\<open>authenticate\<close>, given the same credential by the consent flow, writes nothing
  (the test of line 103).
\<close>

theorem auth_writes_unchecked_credential:
  "\<not> cred_valid \<lparr>token = Some ''t2'', refresh_token = Some ''r2'', expired = True\<rparr>
   \<and> fst (auth
          (sample_env\<lparr>run_local_server :=
               Inr \<lparr>token = Some ''t2'', refresh_token = Some ''r2'', expired = True\<rparr>,
             to_json := \<lambda>c. if cred_valid c then ''valid credential'' else ''invalid credential''\<rparr>)
          sample_world)
     = Inr (Redirect ''/courses'')
   \<and> token_file (snd (auth
          (sample_env\<lparr>run_local_server :=
               Inr \<lparr>token = Some ''t2'', refresh_token = Some ''r2'', expired = True\<rparr>,
             to_json := \<lambda>c. if cred_valid c then ''valid credential'' else ''invalid credential''\<rparr>)
          sample_world))
     = Some ''invalid credential''
   \<and> new_events sample_world (snd (auth
          (sample_env\<lparr>run_local_server :=
               Inr \<lparr>token = Some ''t2'', refresh_token = Some ''r2'', expired = True\<rparr>,
             to_json := \<lambda>c. if cred_valid c then ''valid credential'' else ''invalid credential''\<rparr>)
          sample_world))
     = [EUnlink, EConsent, EWrite ''invalid credential'']
   \<and> authenticate
          (sample_env\<lparr>run_local_server :=
               Inr \<lparr>token = Some ''t2'', refresh_token = Some ''r2'', expired = True\<rparr>,
             to_json := \<lambda>c. if cred_valid c then ''valid credential'' else ''invalid credential''\<rparr>)
          (sample_world\<lparr>token_file := None\<rparr>)
     = (Inr \<lparr>token = Some ''t2'', refresh_token = Some ''r2'', expired = True\<rparr>,
        sample_world\<lparr>token_file := None, trace := [EConsent]\<rparr>)"
  by (simp add: auth_def auth_body_def unlink_token_def flow_from_client_secrets_def
        save_token_def authenticate_def load_token_def consent_step_def save_if_valid_def
        cred_valid_def new_events_def emit_def sample_env_def sample_world_def)

section \<open>What the API client accepts\<close>

text \<open>
  The listing, coursework, upload and patch calls pass the check of the client; the
  create call names a method Classroom v1 does not have, and the turn-in call lacks the
  required \<^verbatim>\<open>courseWorkId\<close>.
\<close>

lemma build_request_list_call: "build_request (list_call course_id coursework_id) = None"
  by (simp add: build_request_def api_required_def list_call_def)

lemma build_request_coursework_call: "build_request (coursework_call course_id) = None"
  by (simp add: build_request_def api_required_def coursework_call_def)

lemma build_request_upload_call: "build_request (upload_call file_path) = None"
  by (simp add: build_request_def api_required_def upload_call_def)

lemma build_request_patch_call:
  "build_request (patch_call course_id coursework_id submission_id file_id filename) = None"
  by (simp add: build_request_def api_required_def patch_call_def)

lemma build_request_create_call:
  "build_request (create_call course_id coursework_id)
     = Some (Exn AttributeError
          (CHR 0x27 # ''Resource'' @ CHR 0x27 # '' object has no attribute ''
           @ CHR 0x27 # ''create'' @ [CHR 0x27]))"
  by (simp add: build_request_def api_required_def create_call_def method_attribute_def)

lemma build_request_turnIn_call:
  "build_request (turnIn_call coursework_id submission_id)
     = Some (Exn TypeError (''Missing required parameter '' @ CHR 0x22 # ''courseWorkId'' @ [CHR 0x22]))"
  by (simp add: build_request_def api_required_def turnIn_call_def)

lemma api_call_accepted:
  "build_request c = None \<Longrightarrow> api_call c remote w = (remote (trace w) c, emit (ECall c) w)"
  by (cases "remote (trace w) c") (simp_all add: api_call_def)

lemma api_call_rejected:
  "build_request c = Some e \<Longrightarrow> api_call c remote w = (Inl e, emit (ERejected c) w)"
  by (simp add: api_call_def)

section \<open>The runs of POST /submit\<close>

text \<open>
  Every run of \<^verbatim>\<open>submit_assignment\<close> raises: the listing raises, or it is empty and
  the create call is rejected, or the first submission is turned in, or the patch raises,
  or the turn-in call is rejected. It sends the listing call and at most the patch call
  after it.
\<close>

lemma find_submission_unfold:
  "find_submission env course_id coursework_id w =
     (case submissions_list env (trace w) (list_call course_id coursework_id) of
        Inl e \<Rightarrow> (Inl e, emit (ECall (list_call course_id coursework_id)) w)
      | Inr [] \<Rightarrow>
          (Inl (Exn AttributeError
                 (CHR 0x27 # ''Resource'' @ CHR 0x27 # '' object has no attribute ''
                  @ CHR 0x27 # ''create'' @ [CHR 0x27])),
           emit (ERejected (create_call course_id coursework_id))
             (emit (ECall (list_call course_id coursework_id)) w))
      | Inr (s # rest) \<Rightarrow>
          if sub_state s = ''TURNED_IN''
          then (Inl (Exn PlainException ''Assignment already turned in.''),
                emit (ECall (list_call course_id coursework_id)) w)
          else (Inr s, emit (ECall (list_call course_id coursework_id)) w))"
  by (simp add: find_submission_def api_call_accepted [OF build_request_list_call]
        api_call_rejected [OF build_request_create_call]
        split: sum.splits list.splits)

lemma find_submission_outcome:
  assumes "find_submission env course_id coursework_id w = (r, w')"
  shows "(\<exists>e. r = Inl e \<and> files w' = files w
            \<and> (trace w' = trace w @ [ECall (list_call course_id coursework_id)]
               \<or> trace w' = trace w @ [ECall (list_call course_id coursework_id),
                                         ERejected (create_call course_id coursework_id)]))
       \<or> (\<exists>s. r = Inr s \<and> w' = emit (ECall (list_call course_id coursework_id)) w)"
  using assms
  by (auto simp: find_submission_unfold emit_def split: sum.splits list.splits if_splits)

lemma find_submission_turned_in:
  assumes "submissions_list env (trace w) (list_call course_id coursework_id) = Inr (s # rest)"
    and "sub_state s = ''TURNED_IN''"
  shows "find_submission env course_id coursework_id w
           = (Inl (Exn PlainException ''Assignment already turned in.''),
              emit (ECall (list_call course_id coursework_id)) w)"
  using assms by (simp add: find_submission_unfold)

lemma submit_assignment_outcome:
  assumes "submit_assignment env course_id coursework_id file_id filename w = (r, w')"
  shows "(\<exists>e. r = Inl e) \<and> files w' = files w
       \<and> (\<exists>evs. trace w' = trace w @ ECall (list_call course_id coursework_id) # evs
            \<and> (evs = [] \<or> evs = [ERejected (create_call course_id coursework_id)]
                \<or> (\<exists>s::submission. evs =
                      [ECall (patch_call course_id coursework_id (sub_id s) file_id filename)])
                \<or> (\<exists>s::submission. evs =
                      [ECall (patch_call course_id coursework_id (sub_id s) file_id filename),
                       ERejected (turnIn_call coursework_id (sub_id s))])))"
proof -
  obtain rf wf where f: "find_submission env course_id coursework_id w = (rf, wf)"
    by (cases "find_submission env course_id coursework_id w")
  note fo = find_submission_outcome [OF f]
  show ?thesis
  proof (cases rf)
    case (Inl e)
    with assms f have "r = Inl e" and "w' = wf" by (simp_all add: submit_assignment_def)
    with fo Inl show ?thesis by auto
  next
    case (Inr s)
    with fo have wf: "wf = emit (ECall (list_call course_id coursework_id)) w" by simp
    let ?pc = "patch_call course_id coursework_id (sub_id s) file_id filename"
    show ?thesis
    proof (cases "submissions_patch env (trace wf) ?pc")
      case pe: (Inl e)
      with assms f Inr have "r = Inl e" and "w' = emit (ECall ?pc) wf"
        by (simp_all add: submit_assignment_def api_call_accepted [OF build_request_patch_call])
      with wf have "r = Inl e" and "files w' = files w"
        and "trace w' = trace w @ ECall (list_call course_id coursework_id) # [ECall ?pc]"
        by (simp_all add: emit_def)
      then show ?thesis by blast
    next
      case pr: (Inr u)
      with assms f Inr
      have "r = Inl (Exn TypeError (''Missing required parameter '' @ CHR 0x22 # ''courseWorkId'' @ [CHR 0x22]))"
        and "w' = emit (ERejected (turnIn_call coursework_id (sub_id s))) (emit (ECall ?pc) wf)"
        by (simp_all add: submit_assignment_def api_call_accepted [OF build_request_patch_call]
              api_call_rejected [OF build_request_turnIn_call])
      with wf have "\<exists>e. r = Inl e" and "files w' = files w"
        and "trace w' = trace w @ ECall (list_call course_id coursework_id)
               # [ECall ?pc, ERejected (turnIn_call coursework_id (sub_id s))]"
        by (simp_all add: emit_def)
      then show ?thesis by blast
    qed
  qed
qed

lemma submit_assignment_turned_in:
  assumes "submissions_list env (trace w) (list_call course_id coursework_id) = Inr (s # rest)"
    and "sub_state s = ''TURNED_IN''"
  shows "submit_assignment env course_id coursework_id file_id filename w
           = (Inl (Exn PlainException ''Assignment already turned in.''),
              emit (ECall (list_call course_id coursework_id)) w)"
  by (simp add: submit_assignment_def find_submission_turned_in [OF assms])

lemma upload_file_to_drive_outcome:
  assumes "upload_file_to_drive env file_path w = (r, w')"
  shows "files w' = files w
         \<and> ((\<exists>e. r = Inl e \<and> trace w' = trace w)
            \<or> (r = files_create env (trace w) (upload_call file_path)
                \<and> trace w' = trace w @ [ECall (upload_call file_path)]))"
  using assms
  by (cases "files w file_path")
     (auto simp: upload_file_to_drive_def api_call_accepted [OF build_request_upload_call] emit_def)


lemma submit_body_outcome:
  assumes "submit_body env course_id coursework_id file_path filename w = (r, w')"
  shows "(\<exists>e. r = Inl e) \<and> files w' = files w
       \<and> (\<exists>evs. trace w' = trace w @ evs
            \<and> ''courses.courseWork.studentSubmissions.turnIn''
                 \<notin> set (map call_method (remote_calls evs)))"
proof -
  obtain ru wu where u: "upload_file_to_drive env file_path w = (ru, wu)"
    by (cases "upload_file_to_drive env file_path w")
  note uo = upload_file_to_drive_outcome [OF u]
  show ?thesis
  proof (cases ru)
    case (Inl e)
    with u assms have "r = Inl e" and "w' = wu" by (simp_all add: submit_body_def)
    with uo Inl show ?thesis by (auto simp: upload_call_def)
  next
    case (Inr fid)
    with uo have tu: "trace wu = trace w @ [ECall (upload_call file_path)]" by auto
    obtain rs ws where sa: "submit_assignment env course_id coursework_id fid filename wu = (rs, ws)"
      by (cases "submit_assignment env course_id coursework_id fid filename wu")
    from submit_assignment_outcome [OF sa] obtain e evs where rs: "rs = Inl e"
      and fs: "files ws = files wu"
      and ts: "trace ws = trace wu @ ECall (list_call course_id coursework_id) # evs"
      and shape: "evs = [] \<or> evs = [ERejected (create_call course_id coursework_id)]
                \<or> (\<exists>s::submission. evs =
                      [ECall (patch_call course_id coursework_id (sub_id s) fid filename)])
                \<or> (\<exists>s::submission. evs =
                      [ECall (patch_call course_id coursework_id (sub_id s) fid filename),
                       ERejected (turnIn_call coursework_id (sub_id s))])"
      by blast
    let ?evs = "ECall (upload_call file_path) # ECall (list_call course_id coursework_id) # evs"
    from shape have no: "''courses.courseWork.studentSubmissions.turnIn''
          \<notin> set (map call_method (remote_calls ?evs))"
      by (auto simp: upload_call_def list_call_def patch_call_def)
    from ts tu have tr: "trace ws = trace w @ ?evs" by simp
    from u Inr sa rs assms have rw: "r = Inl e" "w' = ws"
      by (simp_all add: submit_body_def)
    from uo fs have fl: "files ws = files w" by simp
    from no tr have "\<exists>evs. trace ws = trace w @ evs
            \<and> ''courses.courseWork.studentSubmissions.turnIn''
                 \<notin> set (map call_method (remote_calls evs))"
      by (intro exI [of _ ?evs] conjI)
    with rw fl show ?thesis by simp
  qed
qed

lemma submit_body_turned_in:
  assumes "\<And>h. \<exists>s rest. submissions_list env h (list_call course_id coursework_id) = Inr (s # rest)
                    \<and> sub_state s = ''TURNED_IN''"
    and "submit_body env course_id coursework_id file_path filename w = (r, w')"
  shows "(\<exists>e. r = Inl e \<and> trace w' = trace w)
       \<or> (\<exists>e. r = Inl e \<and> trace w' = trace w @ [ECall (upload_call file_path)])
       \<or> (r = Inl (Exn PlainException ''Assignment already turned in.'')
           \<and> trace w' = trace w @ [ECall (upload_call file_path),
                                     ECall (list_call course_id coursework_id)])"
proof -
  obtain ru wu where u: "upload_file_to_drive env file_path w = (ru, wu)"
    by (cases "upload_file_to_drive env file_path w")
  note uo = upload_file_to_drive_outcome [OF u]
  show ?thesis
  proof (cases ru)
    case (Inl e)
    with u assms(2) have "r = Inl e" and "w' = wu" by (simp_all add: submit_body_def)
    with uo Inl show ?thesis by auto
  next
    case (Inr fid)
    with uo have tu: "trace wu = trace w @ [ECall (upload_call file_path)]" by auto
    from assms(1) [of "trace wu"] obtain s rest where
      l: "submissions_list env (trace wu) (list_call course_id coursework_id) = Inr (s # rest)"
      and t: "sub_state s = ''TURNED_IN''" by blast
    from u Inr assms(2) submit_assignment_turned_in [OF l t, of fid filename]
    have "r = Inl (Exn PlainException ''Assignment already turned in.'')"
      and "w' = emit (ECall (list_call course_id coursework_id)) wu"
      by (simp_all add: submit_body_def)
    with tu show ?thesis by (simp add: emit_def)
  qed
qed

lemma save_if_valid_files:
  "files (snd (save_if_valid env (r, w1))) = files w1"
  by (cases r) (simp_all add: save_if_valid_def save_token_def emit_def)

lemma authenticate_no_calls:
  assumes "authenticate env w = (r, w1)"
  shows "files w1 = files w \<and> (\<exists>evs. trace w1 = trace w @ evs \<and> attempted_calls evs = [])"
  using assms
proof (cases rule: authenticate_cases)
  case (load_raised e)
  from load_token_trace [OF load_raised(1)] show ?thesis by auto
next
  case (valid c)
  then show ?thesis by simp
next
  case (refreshed c)
  have "files w1 = files w"
    using save_if_valid_files [of env "fst (refresh_step env c w)" "snd (refresh_step env c w)"]
      refreshed(5) by (simp add: refresh_step_def emit_def split: sum.splits)
  with save_refresh_outcome [OF refreshed(5)] show ?thesis
    by (auto split: if_splits)
next
  case (consent w0)
  then obtain cr where l: "load_token env w = (Inr cr, w0)" by blast
  have "files w1 = files w0"
    using save_if_valid_files [of env "fst (consent_step env w0)" "snd (consent_step env w0)"]
      consent(2) by (simp add: consent_step_def emit_def split: sum.splits)
  with load_token_trace [OF l] save_consent_outcome [OF consent(2)] show ?thesis
    by (auto split: if_splits)
qed

lemma attempted_calls_append:
  "attempted_calls (evs @ evs') = attempted_calls evs @ attempted_calls evs'"
  by (induction evs rule: attempted_calls.induct) simp_all



lemma file_save_outcome:
  assumes "file_save env dst content w = Inr w2"
  shows "w2 = w\<lparr>files := (files w)(dst \<mapsto> content)\<rparr>"
  using assms by (auto simp: file_save_def split: if_splits option.splits)


lemma submit_cases:
  assumes "submit env req w = (r, w')"
  obtains (raised) e where "r = Inl e" and "authenticate env w = (Inl e, w') \<or>
                 (\<exists>creds. authenticate env w = (Inr creds, w'))"
  | (body) creds w1 course_id coursework_id filename content rb where
      "authenticate env w = (Inr creds, w1)"
      "form_get req ''course_id'' = Inr course_id"
      "form_get req ''assignment_id'' = Inr coursework_id"
      "upload req = Some (filename, content)"
      "submit_body env course_id coursework_id (os_path_join ''uploads'' filename) filename
         (w1\<lparr>files := (files w1)(os_path_join ''uploads'' filename \<mapsto> content)\<rparr>) = (rb, w')"
      "r = (case rb of Inl e \<Rightarrow> Inr (ErrorResponse 500 (exn_str e)) | Inr x \<Rightarrow> Inr x)"
proof -
  obtain ra w1 where a: "authenticate env w = (ra, w1)" by (cases "authenticate env w")
  show thesis
  proof (cases ra)
    case (Inl e)
    with a assms have "r = Inl e" and "w' = w1" by (simp_all add: submit_def)
    with a Inl show thesis by (intro raised [of e]) auto
  next
    case (Inr creds)
    note ra = Inr
    show thesis
    proof (cases "\<exists>cid wid f c w2. get_services env creds = Inr ()
              \<and> form_get req ''course_id'' = Inr cid \<and> form_get req ''assignment_id'' = Inr wid
              \<and> upload req = Some (f, c) \<and> os_makedirs env ''uploads'' = None
              \<and> file_save env (os_path_join ''uploads'' f) c w1 = Inr w2")
      case True
      then obtain cid wid f c w2 where g: "get_services env creds = Inr ()"
        and f1: "form_get req ''course_id'' = Inr cid"
        and f2: "form_get req ''assignment_id'' = Inr wid"
        and up: "upload req = Some (f, c)" and mk: "os_makedirs env ''uploads'' = None"
        and sv: "file_save env (os_path_join ''uploads'' f) c w1 = Inr w2" by blast
      from file_save_outcome [OF sv]
      have w2: "w2 = w1\<lparr>files := (files w1)(os_path_join ''uploads'' f \<mapsto> c)\<rparr>" .
      obtain rb wb where b: "submit_body env cid wid (os_path_join ''uploads'' f) f w2 = (rb, wb)"
        by (cases "submit_body env cid wid (os_path_join ''uploads'' f) f w2")
      from a ra g f1 f2 up mk sv b assms
      have "r = (case rb of Inl e \<Rightarrow> Inr (ErrorResponse 500 (exn_str e)) | Inr x \<Rightarrow> Inr x)"
        and "w' = wb"
        by (auto simp: submit_def files_get_def Let_def split: sum.splits)
      with a ra f1 f2 up b w2 show thesis by (intro body [of creds w1 cid wid f c rb]) auto
    next
      case False
      with a ra assms have "\<exists>e. r = Inl e \<and> w' = w1"
        by (auto simp: submit_def files_get_def Let_def
                 split: sum.splits option.splits prod.splits)
      with a ra show thesis by (auto intro: raised)
    qed
  qed
qed



text \<open>
  Claim C2. For a request to \<^verbatim>\<open>/submit\<close> that names a course and an assignment whose
  submission listing answers, whenever asked, with a first submission in state
  \<^verbatim>\<open>TURNED_IN\<close>: the request fails (an exception leaves the handler, or the handler
  answers with status 500); no call the run makes, sent or rejected, is a patch or a
  turn-in; and when the run gets as far as the listing call, the answer is the 500
  response with the message \<^verbatim>\<open>Assignment already turned in.\<close>
\<close>

theorem resubmission_is_refused:
  assumes "form_get req ''course_id'' = Inr course_id"
    and "form_get req ''assignment_id'' = Inr coursework_id"
    and "\<And>h. \<exists>s rest. submissions_list env h (list_call course_id coursework_id) = Inr (s # rest)
                    \<and> sub_state s = ''TURNED_IN''"
  shows "((\<exists>e. fst (submit env req w) = Inl e) \<or> (\<exists>m. fst (submit env req w) = Inr (ErrorResponse 500 m)))
       \<and> (\<forall>c \<in> set (attempted_calls (new_events w (snd (submit env req w)))).
             call_method c \<noteq> ''courses.courseWork.studentSubmissions.patch''
             \<and> call_method c \<noteq> ''courses.courseWork.studentSubmissions.turnIn'')
       \<and> (list_call course_id coursework_id
               \<in> set (attempted_calls (new_events w (snd (submit env req w))))
             \<longrightarrow> fst (submit env req w) = Inr (ErrorResponse 500 ''Assignment already turned in.''))"
proof -
  obtain r w' where s: "submit env req w = (r, w')" by (cases "submit env req w")
  from s show ?thesis
  proof (cases rule: submit_cases)
    case (raised e)
    then obtain ra where "authenticate env w = (ra, w')" by blast
    from authenticate_no_calls [OF this] obtain evs0 where
      "trace w' = trace w @ evs0" and "attempted_calls evs0 = []" by blast
    with s raised(1) show ?thesis by (simp add: new_events_def)
  next
    case (body creds w1 cid wid filename content rb)
    from body(2,3) assms(1,2) have ids: "cid = course_id" "wid = coursework_id" by simp_all
    from authenticate_no_calls [OF body(1)] obtain evs0 where
      t1: "trace w1 = trace w @ evs0" and nc: "attempted_calls evs0 = []" by blast
    let ?p = "os_path_join ''uploads'' filename"
    from submit_body_turned_in [OF assms(3) body(5) [unfolded ids]]
    consider (none) e where "rb = Inl e" "trace w' = trace w1"
      | (upload) e where "rb = Inl e" "trace w' = trace w1 @ [ECall (upload_call ?p)]"
      | (listed) "rb = Inl (Exn PlainException ''Assignment already turned in.'')"
          "trace w' = trace w1 @ [ECall (upload_call ?p), ECall (list_call course_id coursework_id)]"
      by auto
    then show ?thesis
    proof cases
      case none
      with s body(6) t1 nc show ?thesis by (simp add: new_events_def)
    next
      case upload
      with s body(6) t1 nc show ?thesis
        by (simp add: new_events_def attempted_calls_append upload_call_def list_call_def)
    next
      case listed
      with s body(6) t1 nc show ?thesis
        by (simp add: new_events_def attempted_calls_append upload_call_def list_call_def)
    qed
  qed
qed

theorem resubmission_is_refused_witness:
  "submissions_list
      (sample_env\<lparr>submissions_list := \<lambda>h c. Inr [\<lparr>sub_id = ''s0'', sub_state = ''TURNED_IN''\<rparr>]\<rparr>)
      [] (list_call ''c1'' ''w1'')
     = Inr [\<lparr>sub_id = ''s0'', sub_state = ''TURNED_IN''\<rparr>]
   \<and> fst (submit
        (sample_env\<lparr>submissions_list := \<lambda>h c. Inr [\<lparr>sub_id = ''s0'', sub_state = ''TURNED_IN''\<rparr>]\<rparr>)
        sample_request sample_world)
     = Inr (ErrorResponse 500 ''Assignment already turned in.'')
   \<and> map call_method (attempted_calls (new_events sample_world (snd (submit
        (sample_env\<lparr>submissions_list := \<lambda>h c. Inr [\<lparr>sub_id = ''s0'', sub_state = ''TURNED_IN''\<rparr>]\<rparr>)
        sample_request sample_world))))
     = [''files.create'', ''courses.courseWork.studentSubmissions.list'']"
proof -
  let ?env = "sample_env\<lparr>submissions_list := \<lambda>h c. Inr [\<lparr>sub_id = ''s0'', sub_state = ''TURNED_IN''\<rparr>]\<rparr>"
  have f1: "form_get sample_request ''course_id'' = Inr ''c1''"
    by (simp add: form_get_def sample_request_def)
  have f2: "form_get sample_request ''assignment_id'' = Inr ''w1''"
    by (simp add: form_get_def sample_request_def)
  have l: "\<And>h. \<exists>s rest. submissions_list ?env h (list_call ''c1'' ''w1'') = Inr (s # rest)
                    \<and> sub_state s = ''TURNED_IN''"
    by simp
  note T = resubmission_is_refused [of sample_request "''c1''" "''w1''" ?env sample_world, OF f1 f2 l]
  have calls: "attempted_calls (new_events sample_world (snd (submit ?env sample_request sample_world)))
          = [upload_call ''uploads/essay.txt'', list_call ''c1'' ''w1'']"
    by (simp add: submit_def authenticate_def load_token_def load_body_def cred_valid_def
          get_services_def form_get_def files_get_def os_path_join_def file_save_def
          submit_body_def upload_file_to_drive_def submit_assignment_def find_submission_def
          api_call_accepted [OF build_request_upload_call]
          api_call_accepted [OF build_request_list_call]
          new_events_def emit_def Let_def sample_env_def sample_world_def sample_request_def)
  with T have "fst (submit ?env sample_request sample_world)
          = Inr (ErrorResponse 500 ''Assignment already turned in.'')"
    by simp
  with calls show ?thesis by (simp add: upload_call_def list_call_def)
qed



text \<open>
  Whenever the handler answers with a response, the response is an error of status 500
  and the scratch file written for the request is still there.
\<close>

lemma submit_response_leaves_scratch_file:
  assumes "submit env req w = (Inr resp, w')"
  shows "\<exists>filename content m. upload req = Some (filename, content)
           \<and> resp = ErrorResponse 500 m
           \<and> files w' (os_path_join ''uploads'' filename) = Some content"
  using assms
proof (cases rule: submit_cases)
  case (raised e)
  then show ?thesis by simp
next
  case (body creds w1 cid wid filename content rb)
  from submit_body_outcome [OF body(5)] obtain e where "rb = Inl e"
    and "files w' = (files w1)(os_path_join ''uploads'' filename \<mapsto> content)"
    by auto
  with body(4,6) show ?thesis by simp
qed

text \<open>
  Claim C4, at a request whose upload to Drive fails: the handler answers with status 500
  and the message of the exception, and the scratch file \<^verbatim>\<open>uploads/essay.txt\<close>, which
  did not exist before the request, is still there after it. The removal of line 202 is
  inside the \<^verbatim>\<open>try\<close> and the \<^verbatim>\<open>except\<close> branch does not remove the file.
\<close>

theorem failed_upload_leaves_scratch_file:
  "fst (submit (sample_env\<lparr>files_create := \<lambda>h c. Inl (Exn (LibraryError ''HttpError'') ''upload failed'')\<rparr>)
          sample_request sample_world)
     = Inr (ErrorResponse 500 ''upload failed'')
   \<and> files sample_world ''uploads/essay.txt'' = None
   \<and> files (snd (submit (sample_env\<lparr>files_create := \<lambda>h c. Inl (Exn (LibraryError ''HttpError'') ''upload failed'')\<rparr>)
          sample_request sample_world)) ''uploads/essay.txt''
     = Some ''text''"
  by (simp add: submit_def authenticate_def load_token_def load_body_def cred_valid_def
        get_services_def form_get_def files_get_def os_path_join_def file_save_def
        submit_body_def upload_file_to_drive_def
        api_call_accepted [OF build_request_upload_call] emit_def Let_def
        sample_env_def sample_world_def sample_request_def)




section \<open>The rows of GET /assignments\<close>

text \<open>
  When every submission listing of the loop answers, the loop returns one row for each
  coursework item, in order, built from that item and from the answer of its listing.
\<close>

lemma assignment_rows_answered:
  assumes "\<forall>i<length wks. listing env course_id wks w i = Inr (subs i)"
  shows "\<exists>rows w'. assignment_rows env course_id wks w = (Inr rows, w')
           \<and> length rows = length wks
           \<and> (\<forall>i<length wks. rows ! i =
                 \<lparr>row_id = work_id (wks ! i), row_title = work_title (wks ! i),
                  row_due = format_due (wks ! i), row_status = status_of (subs i)\<rparr>)"
  using assms
proof (induction wks arbitrary: w subs)
  case Nil
  then show ?case by simp
next
  case (Cons wk wks)
  let ?c = "list_call course_id (work_id wk)"
  let ?w1 = "emit (ECall ?c) w"
  let ?r = "\<lparr>row_id = work_id wk, row_title = work_title wk,
             row_due = format_due wk, row_status = status_of (subs 0)\<rparr>"
  from Cons.prems have "listing env course_id (wk # wks) w 0 = Inr (subs 0)" by simp
  then have first: "submissions_list env (trace w) ?c = Inr (subs 0)"
    by (simp add: listing_def)
  then have row: "assignment_row env course_id wk w = (Inr ?r, ?w1)"
    by (simp add: assignment_row_def api_call_accepted [OF build_request_list_call])
  have "\<forall>i<length wks. listing env course_id wks ?w1 i = Inr ((subs \<circ> Suc) i)"
  proof (intro allI impI)
    fix i assume "i < length wks"
    with Cons.prems have "listing env course_id (wk # wks) w (Suc i) = Inr (subs (Suc i))"
      by simp
    then show "listing env course_id wks ?w1 i = Inr ((subs \<circ> Suc) i)"
      by (simp add: listing_def emit_def)
  qed
  from Cons.IH [OF this] obtain rows w' where
    rest: "assignment_rows env course_id wks ?w1 = (Inr rows, w')"
    and len: "length rows = length wks"
    and nth: "\<forall>i<length wks. rows ! i =
                 \<lparr>row_id = work_id (wks ! i), row_title = work_title (wks ! i),
                  row_due = format_due (wks ! i), row_status = status_of ((subs \<circ> Suc) i)\<rparr>"
    by blast
  from row rest have "assignment_rows env course_id (wk # wks) w = (Inr (?r # rows), w')"
    by simp
  moreover have "\<forall>i<length (wk # wks). (?r # rows) ! i =
                 \<lparr>row_id = work_id ((wk # wks) ! i), row_title = work_title ((wk # wks) ! i),
                  row_due = format_due ((wk # wks) ! i), row_status = status_of (subs i)\<rparr>"
  proof (intro allI impI)
    fix i assume "i < length (wk # wks)"
    with nth show "(?r # rows) ! i =
                 \<lparr>row_id = work_id ((wk # wks) ! i), row_title = work_title ((wk # wks) ! i),
                  row_due = format_due ((wk # wks) ! i), row_status = status_of (subs i)\<rparr>"
      by (cases i) simp_all
  qed
  ultimately show ?case using len by simp
qed

lemma assignments_answered:
  assumes "authenticate env w = (Inr creds, w1)" and "get_services env creds = Inr ()"
    and "coursework_list env (trace w1) (coursework_call course_id) = Inr wks"
    and "\<forall>i<length wks.
            listing env course_id wks (emit (ECall (coursework_call course_id)) w1) i = Inr (subs i)"
  shows "\<exists>rows. fst (assignments env course_id w) = Inr (AssignmentList rows)
           \<and> length rows = length wks
           \<and> (\<forall>i<length wks. rows ! i =
                 \<lparr>row_id = work_id (wks ! i), row_title = work_title (wks ! i),
                  row_due = format_due (wks ! i), row_status = status_of (subs i)\<rparr>)"
proof -
  from assignment_rows_answered [OF assms(4)] obtain rows w' where
    "assignment_rows env course_id wks (emit (ECall (coursework_call course_id)) w1) = (Inr rows, w')"
    and "length rows = length wks"
    and "\<forall>i<length wks. rows ! i =
                 \<lparr>row_id = work_id (wks ! i), row_title = work_title (wks ! i),
                  row_due = format_due (wks ! i), row_status = status_of (subs i)\<rparr>"
    by blast
  with assms(1-3) show ?thesis
    by (simp add: assignments_def api_call_accepted [OF build_request_coursework_call])
qed


lemma format_due_sentinel:
  "work_dueDate wk = None \<or> work_dueDate wk = Some [] \<Longrightarrow> format_due wk = ''No due date''"
  by (auto simp: format_due_def)

lemma format_due_components:
  assumes "work_dueDate wk = Some d" and "d \<noteq> []"
  shows "format_due wk =
           (case map_of d ''year'' of None \<Rightarrow> ''N/A'' | Some v \<Rightarrow> py_str v) @ ''-''
         @ (case map_of d ''month'' of None \<Rightarrow> ''N/A'' | Some v \<Rightarrow> py_str v) @ ''-''
         @ (case map_of d ''day'' of None \<Rightarrow> ''N/A'' | Some v \<Rightarrow> py_str v)"
  using assms by (simp add: format_due_def due_component_def split: option.splits)

text \<open>
  Claim C8. In a request to \<^verbatim>\<open>/assignments/<course_id>\<close> where authentication, the
  clients, the coursework listing and each submission listing answer, the handler
  returns the list of assignments (not an error) with one row for each coursework item:
  the status of the row is \<^verbatim>\<open>NOT_SUBMITTED\<close> when the listing for the item held no
  submission, and the state of the first listed submission otherwise.
\<close>

theorem status_follows_first_submission:
  assumes "authenticate env w = (Inr creds, w1)" and "get_services env creds = Inr ()"
    and "coursework_list env (trace w1) (coursework_call course_id) = Inr wks"
    and "\<forall>i<length wks.
            listing env course_id wks (emit (ECall (coursework_call course_id)) w1) i = Inr (subs i)"
  shows "\<exists>rows. fst (assignments env course_id w) = Inr (AssignmentList rows)
           \<and> length rows = length wks
           \<and> (\<forall>i<length wks.
                 row_id (rows ! i) = work_id (wks ! i)
                 \<and> (subs i = [] \<longrightarrow> row_status (rows ! i) = ''NOT_SUBMITTED'')
                 \<and> (\<forall>s rest. subs i = s # rest \<longrightarrow> row_status (rows ! i) = sub_state s))"
proof -
  from assignments_answered [OF assms] obtain rows where
    r: "fst (assignments env course_id w) = Inr (AssignmentList rows)"
    and len: "length rows = length wks"
    and nth: "\<forall>i<length wks. rows ! i =
                 \<lparr>row_id = work_id (wks ! i), row_title = work_title (wks ! i),
                  row_due = format_due (wks ! i), row_status = status_of (subs i)\<rparr>"
    by blast
  have "\<forall>i<length wks.
                 row_id (rows ! i) = work_id (wks ! i)
                 \<and> (subs i = [] \<longrightarrow> row_status (rows ! i) = ''NOT_SUBMITTED'')
                 \<and> (\<forall>s rest. subs i = s # rest \<longrightarrow> row_status (rows ! i) = sub_state s)"
    using nth by (simp add: status_of_def)
  with r len show ?thesis by blast
qed

text \<open>
  Claim C5, as amended. Under the same conditions, the due string of the row of an item
  is \<^verbatim>\<open>No due date\<close> when the item has no due-date field or an empty due-date record;
  when the record is not empty, it is year, month and day joined by \<^verbatim>\<open>-\<close>, each
  being the value of the component printed by \<^verbatim>\<open>str\<close> when present and \<^verbatim>\<open>N/A\<close>
  when absent.
\<close>

theorem due_string_of_each_item:
  assumes "authenticate env w = (Inr creds, w1)" and "get_services env creds = Inr ()"
    and "coursework_list env (trace w1) (coursework_call course_id) = Inr wks"
    and "\<forall>i<length wks.
            listing env course_id wks (emit (ECall (coursework_call course_id)) w1) i = Inr (subs i)"
  shows "\<exists>rows. fst (assignments env course_id w) = Inr (AssignmentList rows)
           \<and> length rows = length wks
           \<and> (\<forall>i<length wks.
                 (work_dueDate (wks ! i) = None \<or> work_dueDate (wks ! i) = Some []
                    \<longrightarrow> row_due (rows ! i) = ''No due date'')
                 \<and> (\<forall>d. work_dueDate (wks ! i) = Some d \<and> d \<noteq> [] \<longrightarrow>
                       row_due (rows ! i) =
                           (case map_of d ''year'' of None \<Rightarrow> ''N/A'' | Some v \<Rightarrow> py_str v) @ ''-''
                         @ (case map_of d ''month'' of None \<Rightarrow> ''N/A'' | Some v \<Rightarrow> py_str v) @ ''-''
                         @ (case map_of d ''day'' of None \<Rightarrow> ''N/A'' | Some v \<Rightarrow> py_str v)))"
proof -
  from assignments_answered [OF assms] obtain rows where
    r: "fst (assignments env course_id w) = Inr (AssignmentList rows)"
    and len: "length rows = length wks"
    and nth: "\<forall>i<length wks. rows ! i =
                 \<lparr>row_id = work_id (wks ! i), row_title = work_title (wks ! i),
                  row_due = format_due (wks ! i), row_status = status_of (subs i)\<rparr>"
    by blast
  have "\<forall>i<length wks.
                 (work_dueDate (wks ! i) = None \<or> work_dueDate (wks ! i) = Some []
                    \<longrightarrow> row_due (rows ! i) = ''No due date'')
                 \<and> (\<forall>d. work_dueDate (wks ! i) = Some d \<and> d \<noteq> [] \<longrightarrow>
                       row_due (rows ! i) =
                           (case map_of d ''year'' of None \<Rightarrow> ''N/A'' | Some v \<Rightarrow> py_str v) @ ''-''
                         @ (case map_of d ''month'' of None \<Rightarrow> ''N/A'' | Some v \<Rightarrow> py_str v) @ ''-''
                         @ (case map_of d ''day'' of None \<Rightarrow> ''N/A'' | Some v \<Rightarrow> py_str v))"
    using nth format_due_sentinel format_due_components by simp
  with r len show ?thesis by blast
qed

text \<open>
  Claim C5 as stated fails for an item whose due-date record is present and empty: all
  three components are absent, yet the due string is \<^verbatim>\<open>No due date\<close>, not
  \<^verbatim>\<open>N/A-N/A-N/A\<close>. The second coursework item of the sample course is such an item.
\<close>

theorem empty_due_date_record_counterexample:
  "coursework_list sample_env [] (coursework_call ''c1'')
     = Inr [\<lparr>work_id = ''w1'', work_title = ''Essay'',
             work_dueDate = Some [(''year'', PyInt 2024), (''month'', PyInt 5)]\<rparr>,
            \<lparr>work_id = ''w2'', work_title = ''Quiz'', work_dueDate = Some []\<rparr>]
   \<and> fst (assignments sample_env ''c1'' sample_world)
     = Inr (AssignmentList
         [\<lparr>row_id = ''w1'', row_title = ''Essay'', row_due = ''2024-5-N/A'',
           row_status = ''NOT_SUBMITTED''\<rparr>,
          \<lparr>row_id = ''w2'', row_title = ''Quiz'', row_due = ''No due date'',
           row_status = ''NOT_SUBMITTED''\<rparr>])"
  by (simp add: assignments_def authenticate_def load_token_def load_body_def cred_valid_def
        get_services_def assignment_row_def format_due_def due_component_def status_of_def
        api_call_accepted [OF build_request_coursework_call]
        api_call_accepted [OF build_request_list_call]
        str_int_def str_nat.simps emit_def Let_def sample_env_def sample_world_def)



theorem status_follows_first_submission_witness:
  "\<exists>rows.
     fst (assignments
            (sample_env\<lparr>submissions_list := \<lambda>h c.
               if c = list_call ''c1'' ''w2''
               then Inr [\<lparr>sub_id = ''s2'', sub_state = ''RETURNED''\<rparr>] else Inr []\<rparr>)
            ''c1'' sample_world)
       = Inr (AssignmentList rows)
     \<and> length rows = 2
     \<and> row_id (rows ! 0) = ''w1'' \<and> row_status (rows ! 0) = ''NOT_SUBMITTED''
     \<and> row_id (rows ! 1) = ''w2'' \<and> row_status (rows ! 1) = ''RETURNED''"
proof -
  let ?env = "sample_env\<lparr>submissions_list := \<lambda>h c.
               if c = list_call ''c1'' ''w2''
               then Inr [\<lparr>sub_id = ''s2'', sub_state = ''RETURNED''\<rparr>] else Inr []\<rparr>"
  let ?c = "\<lparr>token = Some ''t0'', refresh_token = Some ''r0'', expired = False\<rparr>"
  let ?wks = "[\<lparr>work_id = ''w1'', work_title = ''Essay'',
                 work_dueDate = Some [(''year'', PyInt 2024), (''month'', PyInt 5)]\<rparr>,
               \<lparr>work_id = ''w2'', work_title = ''Quiz'', work_dueDate = Some []\<rparr>]"
  let ?subs = "\<lambda>i::nat. if i = 1 then [\<lparr>sub_id = ''s2'', sub_state = ''RETURNED''\<rparr>] else []"
  have a: "authenticate ?env sample_world = (Inr ?c, sample_world)"
    by (simp add: authenticate_def load_token_def load_body_def cred_valid_def
          sample_env_def sample_world_def)
  have g: "get_services ?env ?c = Inr ()"
    by (simp add: get_services_def sample_env_def)
  have l: "coursework_list ?env (trace sample_world) (coursework_call ''c1'') = Inr ?wks"
    by (simp add: sample_env_def)
  have s: "\<forall>i<length ?wks.
            listing ?env ''c1'' ?wks (emit (ECall (coursework_call ''c1'')) sample_world) i
              = Inr (?subs i)"
    by (simp add: listing_def list_call_def less_Suc_eq)
  from status_follows_first_submission [OF a g l s] obtain rows where
    r: "fst (assignments ?env ''c1'' sample_world) = Inr (AssignmentList rows)"
    and len: "length rows = length ?wks"
    and nth: "\<forall>i<length ?wks.
                 row_id (rows ! i) = work_id (?wks ! i)
                 \<and> (?subs i = [] \<longrightarrow> row_status (rows ! i) = ''NOT_SUBMITTED'')
                 \<and> (\<forall>s rest. ?subs i = s # rest \<longrightarrow> row_status (rows ! i) = sub_state s)"
    by blast
  from nth have "row_id (rows ! 0) = ''w1''" and "row_status (rows ! 0) = ''NOT_SUBMITTED''"
    and "row_id (rows ! 1) = ''w2''" and "row_status (rows ! 1) = ''RETURNED''"
    by simp_all
  with r len show ?thesis by simp
qed

theorem due_string_of_each_item_witness:
  "\<exists>rows.
     fst (assignments sample_env ''c1'' sample_world) = Inr (AssignmentList rows)
     \<and> length rows = 2
     \<and> row_due (rows ! 0) = ''2024-5-N/A'' \<and> row_due (rows ! 1) = ''No due date''"
proof -
  let ?c = "\<lparr>token = Some ''t0'', refresh_token = Some ''r0'', expired = False\<rparr>"
  let ?wks = "[\<lparr>work_id = ''w1'', work_title = ''Essay'',
                 work_dueDate = Some [(''year'', PyInt 2024), (''month'', PyInt 5)]\<rparr>,
               \<lparr>work_id = ''w2'', work_title = ''Quiz'', work_dueDate = Some []\<rparr>]"
  let ?subs = "\<lambda>i::nat. [] :: submission list"
  have a: "authenticate sample_env sample_world = (Inr ?c, sample_world)"
    by (simp add: authenticate_def load_token_def load_body_def cred_valid_def
          sample_env_def sample_world_def)
  have g: "get_services sample_env ?c = Inr ()"
    by (simp add: get_services_def sample_env_def)
  have l: "coursework_list sample_env (trace sample_world) (coursework_call ''c1'') = Inr ?wks"
    by (simp add: sample_env_def)
  have s: "\<forall>i<length ?wks.
            listing sample_env ''c1'' ?wks (emit (ECall (coursework_call ''c1'')) sample_world) i
              = Inr (?subs i)"
    by (simp add: listing_def sample_env_def)
  from due_string_of_each_item [OF a g l s] obtain rows where
    r: "fst (assignments sample_env ''c1'' sample_world) = Inr (AssignmentList rows)"
    and len: "length rows = length ?wks"
    and nth: "\<forall>i<length ?wks.
                 (work_dueDate (?wks ! i) = None \<or> work_dueDate (?wks ! i) = Some []
                    \<longrightarrow> row_due (rows ! i) = ''No due date'')
                 \<and> (\<forall>d. work_dueDate (?wks ! i) = Some d \<and> d \<noteq> [] \<longrightarrow>
                       row_due (rows ! i) =
                           (case map_of d ''year'' of None \<Rightarrow> ''N/A'' | Some v \<Rightarrow> py_str v) @ ''-''
                         @ (case map_of d ''month'' of None \<Rightarrow> ''N/A'' | Some v \<Rightarrow> py_str v) @ ''-''
                         @ (case map_of d ''day'' of None \<Rightarrow> ''N/A'' | Some v \<Rightarrow> py_str v))"
    by blast
  from nth [THEN spec, of 1] have "row_due (rows ! 1) = ''No due date''" by simp
  moreover from nth [THEN spec, of 0] have "row_due (rows ! 0) = ''2024-5-N/A''"
    by (simp add: str_int_def str_nat.simps)
  ultimately show ?thesis using r len by simp
qed

end
